theory Spec2Isabelle
  imports Complex_Main
begin

section \<open>Common conventions\<close>

text \<open>
  The theory embeds the signal engine (\<^verbatim>\<open>signals.py\<close>), the order-flow analyzer
  (\<^verbatim>\<open>analyzer.py\<close>), the adapter order book (\<^verbatim>\<open>bingx_client.py\<close>) and the
  per-coin watcher with its registry (\<^verbatim>\<open>server_v2.py\<close>).

  Python \<^verbatim>\<open>float\<close> values are modelled as exact reals: rounding, infinities and NaN
  are outside the model, but the \<^verbatim>\<open>OverflowError\<close> of \<^verbatim>\<open>math.exp\<close> is a branch of it. A float division by zero raises \<^verbatim>\<open>ZeroDivisionError\<close> in
  Python; every such division of the source is a branch of the model. A method name
  such as \<^verbatim>\<open>_calc_imbalance\<close> loses its leading underscore. The wall clock
  (\<^verbatim>\<open>time.time()\<close>) is a parameter \<open>now\<close> of each handler; the readings a handler
  takes within one call share it. A record field whose name is used by two classes of the
  source, or as a variable below, carries a prefix.
\<close>

datatype py_error = ZeroDivisionError | AttributeError | OverflowError

text \<open>\<^verbatim>\<open>deque(maxlen=n).append(x)\<close>: the oldest entries fall out on the left.\<close>

definition deque_append :: "nat \<Rightarrow> 'a list \<Rightarrow> 'a \<Rightarrow> 'a list" where
  "deque_append maxlen xs x = (let ys = xs @ [x] in drop (length ys - maxlen) ys)"

text \<open>
  \<^verbatim>\<open>max(xs, key=k)\<close> returns the first element whose key is maximal; on an empty
  list the source guards the call (\<^verbatim>\<open>... if bids else None\<close>).
\<close>

fun max_by :: "('a \<Rightarrow> real) \<Rightarrow> 'a \<Rightarrow> 'a list \<Rightarrow> 'a" where
  "max_by key best [] = best"
| "max_by key best (x # xs) = max_by key (if key best < key x then x else best) xs"

definition py_max :: "('a \<Rightarrow> real) \<Rightarrow> 'a list \<Rightarrow> 'a option" where
  "py_max key xs = (case xs of [] \<Rightarrow> None | x # rest \<Rightarrow> Some (max_by key x rest))"

text \<open>Python's \<^verbatim>\<open>round(x)\<close> on a float: to the nearest integer, ties to the even one.\<close>

definition py_round :: "real \<Rightarrow> int" where
  "py_round x =
     (let f = \<lfloor>x\<rfloor>; d = x - of_int f
      in if d < 1 / 2 then f
         else if 1 / 2 < d then f + 1
         else if even f then f else f + 1)"

section \<open>The signal engine (signals.py)\<close>

datatype Signal = STRONG_BUY | BUY | NEUTRAL | SELL | STRONG_SELL

record OrderBookLevel =
  price :: real
  quantity :: real

definition value_usd :: "OrderBookLevel \<Rightarrow> real" where
  "value_usd l = price l * quantity l"

record LiquidityZone =
  zone_price :: real
  total_volume_usd :: real
  zone_side :: string
  distance_pct :: real
  order_count :: nat
  is_major :: bool

record TradeSuggestion =
  action :: string
  mode :: string
  entry_price :: real
  target_price :: real
  stop_price :: real
  sug_confidence :: real
  sug_reason :: "string \<times> real list"

text \<open>
  A reason is a literal string or an f-string: its template and the float arguments it
  formats (the emoji prefixes of the source are left out of the ASCII text).
\<close>

datatype reason = Literal string | Formatted string "real list"

record SignalResult =
  signal :: Signal
  confidence :: real
  score :: real
  imbalance_score :: real
  weighted_pressure_score :: real
  wall_score :: real
  spread_score :: real
  flow_score :: real
  momentum_score :: real
  bid_volume :: real
  ask_volume :: real
  res_imbalance_ratio :: real
  spread_bps :: real
  largest_bid_usd :: real
  largest_ask_usd :: real
  mid_price :: real
  support_zones :: "LiquidityZone list"
  resistance_zones :: "LiquidityZone list"
  scalp_suggestion :: "TradeSuggestion option"
  reversal_suggestion :: "TradeSuggestion option"
  reasons :: "reason list"

text \<open>\<^verbatim>\<open>SignalResult(signal=Signal.NEUTRAL, confidence=0, score=0)\<close> with the dataclass defaults.\<close>

definition new_result :: SignalResult where
  "new_result =
     \<lparr>signal = NEUTRAL, confidence = 0, score = 0,
      imbalance_score = 0, weighted_pressure_score = 0, wall_score = 0,
      spread_score = 0, flow_score = 0, momentum_score = 0,
      bid_volume = 0, ask_volume = 0, res_imbalance_ratio = 1, spread_bps = 0,
      largest_bid_usd = 0, largest_ask_usd = 0, mid_price = 0,
      support_zones = [], resistance_zones = [],
      scalp_suggestion = None, reversal_suggestion = None, reasons = []\<rparr>"

text \<open>
  The engine's mutable state. \<^verbatim>\<open>trade_deltas\<close> is never read or written after the
  constructor and the weights are constants, so neither is a field.
\<close>

record SignalEngine =
  engine_symbol :: string
  imbalance_history :: "real list"
  cumulative_delta :: real

definition new_engine :: "string \<Rightarrow> SignalEngine" where
  "new_engine name = \<lparr>engine_symbol = name, imbalance_history = [], cumulative_delta = 0\<rparr>"

definition calc_imbalance ::
  "OrderBookLevel list \<Rightarrow> OrderBookLevel list \<Rightarrow> real \<times> real \<times> real \<times> real" where
  "calc_imbalance bids asks =
     (let bid_vol = sum_list (map value_usd (take 20 bids));
          ask_vol = sum_list (map value_usd (take 20 asks));
          ratio = (if ask_vol = 0 then 2
                   else if bid_vol = 0 then 1 / 2
                   else bid_vol / ask_vol);
          sc = (if 1 \<le> ratio then min 100 ((ratio - 1) * 50)
                else max (- 100) ((ratio - 1) * 100))
      in (sc, bid_vol, ask_vol, ratio))"

text \<open>
  \<^verbatim>\<open>math.exp\<close> raises \<^verbatim>\<open>OverflowError\<close> when the result exceeds the largest finite
  double. It is the one operation of the source that turns a float out of range into an
  exception; the rounding of a result next to that bound is outside the model.
\<close>

definition float_max :: real where
  "float_max = (2 - 1 / 2 ^ 52) * 2 ^ 1023"

definition math_exp :: "real \<Rightarrow> py_error + real" where
  "math_exp x = (if float_max < exp x then Inl OverflowError else Inr (exp x))"

text \<open>
  \<^verbatim>\<open>_calc_weighted_pressure\<close> with the default \<^verbatim>\<open>decay_rate = 0.1\<close>. Each loop adds
  value times weight to its accumulator, level by level; the first iteration of either
  loop divides by \<open>mid\<close>, and the weight of a level is a call of \<^verbatim>\<open>math.exp\<close>.
\<close>

definition level_weight :: "real \<Rightarrow> real \<Rightarrow> py_error + real" where
  "level_weight decay_rate distance = math_exp (- decay_rate * distance * 100)"

fun pressure_sum ::
  "(OrderBookLevel \<Rightarrow> real) \<Rightarrow> real \<Rightarrow> OrderBookLevel list \<Rightarrow> py_error + real" where
  "pressure_sum dist_of acc [] = Inr acc"
| "pressure_sum dist_of acc (l # ls) =
     (case level_weight (1 / 10) (dist_of l) of
        Inl e \<Rightarrow> Inl e
      | Inr weight \<Rightarrow> pressure_sum dist_of (acc + value_usd l * weight) ls)"

definition calc_weighted_pressure ::
  "OrderBookLevel list \<Rightarrow> OrderBookLevel list \<Rightarrow> real \<Rightarrow> py_error + real" where
  "calc_weighted_pressure bids asks mid =
     (if mid = 0 \<and> (take 30 bids \<noteq> [] \<or> take 30 asks \<noteq> []) then Inl ZeroDivisionError
      else
        case pressure_sum (\<lambda>b. (mid - price b) / mid) 0 (take 30 bids) of
          Inl e \<Rightarrow> Inl e
        | Inr bid_pressure \<Rightarrow>
            (case pressure_sum (\<lambda>a. (price a - mid) / mid) 0 (take 30 asks) of
               Inl e \<Rightarrow> Inl e
             | Inr ask_pressure \<Rightarrow>
                 (let total = bid_pressure + ask_pressure
                  in if total = 0 then Inr 0
                     else Inr ((bid_pressure - ask_pressure) / total * 100))))"

definition calc_wall_score ::
  "OrderBookLevel list \<Rightarrow> OrderBookLevel list \<Rightarrow> real \<Rightarrow> real \<Rightarrow> real \<times> real \<times> real" where
  "calc_wall_score bids asks total_bid total_ask =
     (let largest_bid = py_max value_usd (take 20 bids);
          largest_ask = py_max value_usd (take 20 asks);
          largest_bid_v = (case largest_bid of Some l \<Rightarrow> value_usd l | None \<Rightarrow> 0);
          largest_ask_v = (case largest_ask of Some l \<Rightarrow> value_usd l | None \<Rightarrow> 0);
          bid_wall_pct = (if 0 < total_bid then largest_bid_v / total_bid * 100 else 0);
          ask_wall_pct = (if 0 < total_ask then largest_ask_v / total_ask * 100 else 0);
          s0 = (0 :: real);
          s1 = (if 15 < bid_wall_pct then s0 + min 50 bid_wall_pct else s0);
          s2 = (if 15 < ask_wall_pct then s1 - min 50 ask_wall_pct else s1);
          s3 = (if 100000 < largest_bid_v then s2 + 20 else s2);
          s4 = (if 100000 < largest_ask_v then s3 - 20 else s3)
      in (max (- 100) (min 100 s4), largest_bid_v, largest_ask_v))"

definition calc_spread_score ::
  "OrderBookLevel list \<Rightarrow> OrderBookLevel list \<Rightarrow> py_error + real \<times> real" where
  "calc_spread_score bids asks =
     (case (bids, asks) of
        (b # _, a # _) \<Rightarrow>
          (let spread = price a - price b;
               mid = (price a + price b) / 2
           in if mid = 0 then Inl ZeroDivisionError
              else
                let bps = spread / mid * 10000
                in Inr (if bps < 5 then 10 else if 50 < bps then - 10 else 0, bps))
      | _ \<Rightarrow> Inr (0, 0))"

text \<open>
  \<^verbatim>\<open>_calc_flow_score\<close>: the only writer of \<^verbatim>\<open>cumulative_delta\<close>. A trade of the
  window is the pair (value, side).
\<close>

definition calc_flow_score ::
  "(real \<times> string) list \<Rightarrow> SignalEngine \<Rightarrow> SignalEngine \<times> real" where
  "calc_flow_score recent_trades st =
     (let buy_volume = sum_list (map fst (filter (\<lambda>t. snd t = ''buy'') recent_trades));
          sell_volume = sum_list (map fst (filter (\<lambda>t. snd t = ''sell'') recent_trades));
          total = buy_volume + sell_volume
      in if total = 0 then (st, 0)
         else
           let delta = buy_volume - sell_volume
           in (st\<lparr>cumulative_delta := cumulative_delta st + delta\<rparr>, delta / total * 100))"

definition calc_momentum :: "SignalEngine \<Rightarrow> real" where
  "calc_momentum st =
     (let history = imbalance_history st
      in if length history < 10 then 0
         else
           let recent = sum_list (drop (length history - 10) history) / 10;
               older = (if 20 \<le> length history then sum_list (take 10 history) / 10 else recent)
           in if older = 0 then 0
              else max (- 100) (min 100 ((recent - older) / older * 300)))"

definition score_to_signal :: "real \<Rightarrow> Signal \<times> real" where
  "score_to_signal sc =
     (let conf = min 100 (\<bar>sc\<bar> * 2)
      in if 40 \<le> sc then (STRONG_BUY, conf)
         else if 20 \<le> sc then (BUY, conf)
         else if sc \<le> - 40 then (STRONG_SELL, conf)
         else if sc \<le> - 20 then (SELL, conf)
         else (NEUTRAL, conf))"

text \<open>
  \<^verbatim>\<open>_generate_reasons\<close>. The ask-imbalance message formats \<^verbatim>\<open>1/result.imbalance_ratio\<close>,
  which raises on a zero ratio.
\<close>

definition generate_reasons :: "SignalResult \<Rightarrow> py_error + reason list" where
  "generate_reasons r =
     (let ratio = res_imbalance_ratio r
      in if \<not> 13 / 10 < ratio \<and> ratio < 7 / 10 \<and> ratio = 0 then Inl ZeroDivisionError
         else
           let rs =
             (if 13 / 10 < ratio
                then [Formatted ''Strong bid imbalance ({:.2f}x more bids)'' [ratio]]
              else if ratio < 7 / 10
                then [Formatted ''Strong ask imbalance ({:.2f}x more asks)'' [1 / ratio]]
              else []) @
             (if 50000 < largest_bid_usd r
                then [Formatted ''Large bid wall: ${:,.0f}'' [largest_bid_usd r]] else []) @
             (if 50000 < largest_ask_usd r
                then [Formatted ''Large ask wall: ${:,.0f}'' [largest_ask_usd r]] else []) @
             (if 30 < momentum_score r then [Literal ''Bullish momentum building'']
              else if momentum_score r < - 30 then [Literal ''Bearish momentum building'']
              else []) @
             (if 30 < spread_bps r
                then [Formatted ''Wide spread ({:.0f} bps) - low liquidity'' [spread_bps r]]
              else []) @
             (if 40 < flow_score r then [Literal ''Heavy buy flow detected'']
              else if flow_score r < - 40 then [Literal ''Heavy sell flow detected'']
              else [])
           in Inr (if rs = [] then [Literal ''No strong signals detected''] else rs))"

subsection \<open>Liquidity zones\<close>

text \<open>
  A cluster dictionary is an association list in insertion order (the order in which
  Python iterates a dict); the key is the rounded cluster price.
\<close>

record cluster =
  cluster_volume :: real
  cluster_count :: nat
  cluster_prices :: "real list"

fun cluster_add ::
  "real \<Rightarrow> OrderBookLevel \<Rightarrow> (real \<times> cluster) list \<Rightarrow> (real \<times> cluster) list" where
  "cluster_add k l [] =
     [(k, \<lparr>cluster_volume = 0 + value_usd l, cluster_count = 0 + 1,
           cluster_prices = [price l]\<rparr>)]"
| "cluster_add k l ((k', c) # cs) =
     (if k' = k
      then (k', c\<lparr>cluster_volume := cluster_volume c + value_usd l,
                  cluster_count := cluster_count c + 1,
                  cluster_prices := cluster_prices c @ [price l]\<rparr>) # cs
      else (k', c) # cluster_add k l cs)"

text \<open>With the default \<^verbatim>\<open>cluster_threshold_pct = 0.15\<close>.\<close>

definition cluster_key :: "real \<Rightarrow> real \<Rightarrow> real" where
  "cluster_key mid p =
     of_int (py_round (p / (mid * (15 / 100) / 100))) * (mid * (15 / 100) / 100)"

definition bid_distance :: "real \<Rightarrow> real \<Rightarrow> real" where
  "bid_distance mid p = ((mid - p) / mid) * 100"

definition ask_distance :: "real \<Rightarrow> real \<Rightarrow> real" where
  "ask_distance mid p = ((p - mid) / mid) * 100"

text \<open>
  The two loops of \<^verbatim>\<open>_find_liquidity_zones\<close> differ only in the distance formula and
  the side label, so each is an instance of one definition (defaults
  \<^verbatim>\<open>min_distance_pct = 0.0\<close>, \<^verbatim>\<open>max_distance_pct = 50.0\<close>).
\<close>

definition collect_clusters ::
  "(real \<Rightarrow> real) \<Rightarrow> real \<Rightarrow> OrderBookLevel list \<Rightarrow> (real \<times> cluster) list" where
  "collect_clusters dist_of mid levels =
     foldl (\<lambda>cs l. let d = dist_of (price l)
                    in if 0 \<le> d \<and> d \<le> 50 then cluster_add (cluster_key mid (price l)) l cs
                       else cs)
           [] levels"

definition zones_of ::
  "string \<Rightarrow> (real \<Rightarrow> real) \<Rightarrow> (real \<times> cluster) list \<Rightarrow> LiquidityZone list" where
  "zones_of side_name dist_of clusters =
     (let total_volume =
            (if clusters \<noteq> [] then sum_list (map (\<lambda>kc. cluster_volume (snd kc)) clusters)
             else 1)
      in map (\<lambda>kc.
            let ps = cluster_prices (snd kc);
                avg_price = (if ps \<noteq> [] then sum_list ps / real (length ps) else fst kc)
            in \<lparr>zone_price = avg_price,
                total_volume_usd = cluster_volume (snd kc),
                zone_side = side_name,
                distance_pct = dist_of avg_price,
                order_count = cluster_count (snd kc),
                is_major = (total_volume * (2 / 10) < cluster_volume (snd kc)
                            \<or> 100000 < cluster_volume (snd kc))\<rparr>)
          clusters)"

text \<open>
  \<^verbatim>\<open>zones.sort(key=volume, reverse=True)\<close> is a stable descending sort: a stable
  ascending sort on the negated key.
\<close>

definition sort_by_volume :: "LiquidityZone list \<Rightarrow> LiquidityZone list" where
  "sort_by_volume zs = sort_key (\<lambda>z. - total_volume_usd z) zs"

definition find_liquidity_zones ::
  "OrderBookLevel list \<Rightarrow> OrderBookLevel list \<Rightarrow> real
     \<Rightarrow> LiquidityZone list \<times> LiquidityZone list" where
  "find_liquidity_zones bids asks mid =
     (if mid = 0 then ([], [])
      else (sort_by_volume
              (zones_of ''bid'' (bid_distance mid) (collect_clusters (bid_distance mid) mid bids)),
            sort_by_volume
              (zones_of ''ask'' (ask_distance mid) (collect_clusters (ask_distance mid) mid asks))))"

subsection \<open>Trade suggestions\<close>

text \<open>
  \<^verbatim>\<open>_generate_suggestions\<close> has a scalp part and a reversal part; the book arguments
  of the source are not used by its body. The SHORT scalp formats
  \<^verbatim>\<open>1/result.imbalance_ratio\<close> into its reason.
\<close>

definition scalp_part :: "SignalResult \<Rightarrow> py_error + TradeSuggestion option" where
  "scalp_part r =
     (let mid = mid_price r;
          stop_distance = max (spread_bps r * 3 / 10000) (5 / 1000);
          target_distance = stop_distance * 2
      in if 20 \<le> score r then
           Inr (Some \<lparr>action = ''LONG'', mode = ''scalp'', entry_price = mid,
                      target_price = mid * (1 + target_distance),
                      stop_price = mid * (1 - stop_distance),
                      sug_confidence = min (confidence r) 80,
                      sug_reason = (''Near-price buying pressure ({:.2f}x bid imbalance)'',
                                    [res_imbalance_ratio r])\<rparr>)
         else if score r \<le> - 20 then
           (if res_imbalance_ratio r = 0 then Inl ZeroDivisionError
            else
              Inr (Some \<lparr>action = ''SHORT'', mode = ''scalp'', entry_price = mid,
                         target_price = mid * (1 - target_distance),
                         stop_price = mid * (1 + stop_distance),
                         sug_confidence = min (confidence r) 80,
                         sug_reason = (''Near-price selling pressure ({:.2f}x ask imbalance)'',
                                       [1 / res_imbalance_ratio r])\<rparr>))
         else Inr None)"

definition reversal_part :: "SignalResult \<Rightarrow> TradeSuggestion option" where
  "reversal_part r =
     (let mid = mid_price r;
          major_supports = filter is_major (support_zones r);
          major_resistances = filter is_major (resistance_zones r);
          reversal =
            (case major_supports of
               [] \<Rightarrow> None
             | best_support # _ \<Rightarrow>
                 if distance_pct best_support < 10 then
                   Some \<lparr>action = ''LONG'', mode = ''reversal'',
                         entry_price = zone_price best_support,
                         target_price =
                           (case major_resistances of
                              [] \<Rightarrow> mid * (1 + distance_pct best_support / 100)
                            | z # _ \<Rightarrow> zone_price z),
                         stop_price = zone_price best_support * (97 / 100),
                         sug_confidence = min 70 (total_volume_usd best_support / 10000),
                         sug_reason = (''Major support zone at ${:.6f} (${:,.0f} in bids)'',
                                       [zone_price best_support, total_volume_usd best_support])\<rparr>
                 else None)
      in case reversal of
           Some s \<Rightarrow> Some s
         | None \<Rightarrow>
             (case major_resistances of
                [] \<Rightarrow> None
              | best_resistance # _ \<Rightarrow>
                  if distance_pct best_resistance < 10 then
                    Some \<lparr>action = ''SHORT'', mode = ''reversal'',
                          entry_price = zone_price best_resistance,
                          target_price =
                            (case major_supports of
                               [] \<Rightarrow> mid * (1 - distance_pct best_resistance / 100)
                             | z # _ \<Rightarrow> zone_price z),
                          stop_price = zone_price best_resistance * (103 / 100),
                          sug_confidence = min 70 (total_volume_usd best_resistance / 10000),
                          sug_reason =
                            (''Major resistance zone at ${:.6f} (${:,.0f} in asks)'',
                             [zone_price best_resistance, total_volume_usd best_resistance])\<rparr>
                  else None))"

definition generate_suggestions ::
  "SignalResult \<Rightarrow> py_error + TradeSuggestion option \<times> TradeSuggestion option" where
  "generate_suggestions r =
     (if mid_price r = 0 then Inr (None, None)
      else case scalp_part r of
             Inl e \<Rightarrow> Inl e
           | Inr scalp \<Rightarrow> Inr (scalp, reversal_part r))"

subsection \<open>analyze\<close>

text \<open>
  \<^verbatim>\<open>SignalEngine.analyze\<close>: the engine after the call, and the result or the
  exception raised. The trade window is \<open>None\<close> when the caller passes no list. The flow
  step runs only under \<^verbatim>\<open>if recent_trades:\<close>, which is false for \<open>None\<close> and for the
  empty list.
\<close>

definition zone_reasons :: "SignalResult \<Rightarrow> reason list" where
  "zone_reasons r =
     (case support_zones r of
        z # _ \<Rightarrow> if is_major z
                 then [Formatted ''Major support at ${:.6f} ({:.1f}% below)''
                         [zone_price z, distance_pct z]]
                 else []
      | [] \<Rightarrow> []) @
     (case resistance_zones r of
        z # _ \<Rightarrow> if is_major z
                 then [Formatted ''Major resistance at ${:.6f} ({:.1f}% above)''
                         [zone_price z, distance_pct z]]
                 else []
      | [] \<Rightarrow> [])"

definition weighted_score :: "SignalResult \<Rightarrow> real" where
  "weighted_score r =
     imbalance_score r * (25 / 100) +
     weighted_pressure_score r * (20 / 100) +
     wall_score r * (15 / 100) +
     spread_score r * (10 / 100) +
     flow_score r * (20 / 100) +
     momentum_score r * (10 / 100)"

definition analyze ::
  "SignalEngine \<Rightarrow> OrderBookLevel list \<Rightarrow> OrderBookLevel list \<Rightarrow> (real \<times> string) list option
     \<Rightarrow> SignalEngine \<times> (py_error + SignalResult)" where
  "analyze st bids asks recent_trades =
     (case (bids, asks) of
        (b0 # _, a0 # _) \<Rightarrow>
          (let mid = (price b0 + price a0) / 2;
               (imb, bid_vol, ask_vol, ratio) = calc_imbalance bids asks;
               r1 = new_result\<lparr>imbalance_score := imb, bid_volume := bid_vol,
                                ask_volume := ask_vol, res_imbalance_ratio := ratio\<rparr>
           in case calc_weighted_pressure bids asks mid of
                Inl e \<Rightarrow> (st, Inl e)
              | Inr wp \<Rightarrow>
                  (let r2 = r1\<lparr>weighted_pressure_score := wp\<rparr>;
                       (wall, lb, la) = calc_wall_score bids asks bid_vol ask_vol;
                       r3 = r2\<lparr>wall_score := wall, largest_bid_usd := lb, largest_ask_usd := la\<rparr>
                   in case calc_spread_score bids asks of
                        Inl e \<Rightarrow> (st, Inl e)
                      | Inr (sp, bps) \<Rightarrow>
                          (let r4 = r3\<lparr>spread_score := sp, spread_bps := bps\<rparr>;
                               (st1, r5) =
                                 (case recent_trades of
                                    None \<Rightarrow> (st, r4)
                                  | Some ts \<Rightarrow>
                                      if ts = [] then (st, r4)
                                      else (let (st', fl) = calc_flow_score ts st
                                            in (st', r4\<lparr>flow_score := fl\<rparr>)));
                               st2 = st1\<lparr>imbalance_history :=
                                            deque_append 60 (imbalance_history st1) ratio\<rparr>;
                               r6 = r5\<lparr>momentum_score := calc_momentum st2\<rparr>;
                               r7 = r6\<lparr>score := weighted_score r6\<rparr>;
                               (sig, conf) = score_to_signal (score r7);
                               r8 = r7\<lparr>signal := sig, confidence := conf, mid_price := mid\<rparr>;
                               (sup, res) = find_liquidity_zones bids asks mid;
                               r9 = r8\<lparr>support_zones := sup, resistance_zones := res\<rparr>
                           in case generate_suggestions r9 of
                                Inl e \<Rightarrow> (st2, Inl e)
                              | Inr (scalp, reversal) \<Rightarrow>
                                  (let r10 = r9\<lparr>scalp_suggestion := scalp,
                                                 reversal_suggestion := reversal\<rparr>
                                   in case generate_reasons r10 of
                                        Inl e \<Rightarrow> (st2, Inl e)
                                      | Inr rs \<Rightarrow>
                                          (st2, Inr (r10\<lparr>reasons := rs @ zone_reasons r10\<rparr>))))))
      | _ \<Rightarrow> (st, Inr (new_result\<lparr>reasons := [Literal ''Insufficient data'']\<rparr>)))"

section \<open>The adapter order book and trade (bingx_client.py)\<close>

text \<open>
  The adapter's \<^verbatim>\<open>OrderBookLevel\<close> has the fields and the \<^verbatim>\<open>value_usd\<close> property of
  the engine's class, so one record serves both. The Hyperliquid client declares the same
  \<^verbatim>\<open>OrderBook\<close> and \<^verbatim>\<open>Trade\<close>; BloFin imports them from here.
\<close>

record OrderBook =
  book_symbol :: string
  book_bids :: "OrderBookLevel list"
  book_asks :: "OrderBookLevel list"
  book_timestamp :: real

definition bid_total_usd :: "OrderBook \<Rightarrow> real" where
  "bid_total_usd ob = sum_list (map value_usd (take 20 (book_bids ob)))"

definition ask_total_usd :: "OrderBook \<Rightarrow> real" where
  "ask_total_usd ob = sum_list (map value_usd (take 20 (book_asks ob)))"

definition imbalance_ratio :: "OrderBook \<Rightarrow> real" where
  "imbalance_ratio ob =
     (if ask_total_usd ob = 0 then 1 else bid_total_usd ob / ask_total_usd ob)"

definition spread_pct :: "OrderBook \<Rightarrow> py_error + real" where
  "spread_pct ob =
     (case (book_bids ob, book_asks ob) of
        (b # _, a # _) \<Rightarrow>
          if price b = 0 then Inl ZeroDivisionError
          else Inr (((price a - price b) / price b) * 100)
      | _ \<Rightarrow> Inr 0)"

record Trade =
  trade_symbol :: string
  trade_price :: real
  trade_quantity :: real
  side :: string
  timestamp :: real

definition trade_value_usd :: "Trade \<Rightarrow> real" where
  "trade_value_usd t = trade_price t * trade_quantity t"

section \<open>The order-flow analyzer (analyzer.py, config.py)\<close>

text \<open>\<^verbatim>\<open>THRESHOLDS = WhaleThresholds()\<close> with its defaults.\<close>

definition large_order_usd :: real where "large_order_usd = 10000"
definition whale_order_usd :: real where "whale_order_usd = 50000"
definition imbalance_ratio_threshold :: real where "imbalance_ratio_threshold = 15 / 10"

text \<open>An alert; its \<^verbatim>\<open>details\<close> display text is not modelled.\<close>

record WhaleAlert =
  alert_symbol :: string
  alert_type :: string
  alert_side :: string
  alert_value_usd :: real
  alert_price :: real
  alert_timestamp :: real

record SymbolStats =
  stats_symbol :: string
  last_price :: real
  bid_volume_usd :: real
  ask_volume_usd :: real
  stats_imbalance_ratio :: real
  stats_spread_pct :: real
  buy_volume_1m :: real
  sell_volume_1m :: real
  largest_bid :: "OrderBookLevel option"
  largest_ask :: "OrderBookLevel option"
  last_update :: real

definition new_stats :: "string \<Rightarrow> SymbolStats" where
  "new_stats name =
     \<lparr>stats_symbol = name, last_price = 0, bid_volume_usd = 0, ask_volume_usd = 0,
      stats_imbalance_ratio = 1, stats_spread_pct = 0, buy_volume_1m = 0, sell_volume_1m = 0,
      largest_bid = None, largest_ask = None, last_update = 0\<rparr>"

text \<open>The \<^verbatim>\<open>pressure\<close> entry of \<^verbatim>\<open>SymbolStats.to_dict\<close> and \<^verbatim>\<open>CoinWatcher.get_stats\<close>.\<close>

definition pressure :: "SymbolStats \<Rightarrow> string" where
  "pressure st =
     (if 12 / 10 < stats_imbalance_ratio st then ''BUY''
      else if stats_imbalance_ratio st < 8 / 10 then ''SELL''
      else ''NEUTRAL'')"

text \<open>
  The analyzer's state. \<open>emitted\<close> is a log the source does not keep: every alert that
  passes the dedup check of \<^verbatim>\<open>_emit_alert\<close> (and is handed to \<^verbatim>\<open>on_alert\<close>), in order,
  with the clock reading at which it passed.
\<close>

record OrderFlowAnalyzer =
  stats :: "string \<rightharpoonup> SymbolStats"
  alerts :: "WhaleAlert list"
  analyzer_trades :: "string \<rightharpoonup> Trade list"
  emitted :: "(real \<times> WhaleAlert) list"

text \<open>
  The constructor: \<^verbatim>\<open>self.symbols = symbols or MEME_COINS\<close>, so an absent or empty list
  of symbols stands for the configured coins.
\<close>

definition MEME_COINS :: "string list" where
  "MEME_COINS =
     [''WIF-USDT'', ''1000PEPE-USDT'', ''1000BONK-USDT'', ''DOGE-USDT'', ''SHIB-USDT'',
      ''FLOKI-USDT'', ''MEME-USDT'', ''BRETT-USDT'', ''POPCAT-USDT'', ''GOAT-USDT'',
      ''PNUT-USDT'', ''FARTCOIN-USDT'', ''SPX-USDT'', ''1000000MOG-USDT'', ''NEIROCTO-USDT'']"

definition new_analyzer :: "string list \<Rightarrow> OrderFlowAnalyzer" where
  "new_analyzer symbols =
     (let tracked = (if symbols = [] then MEME_COINS else symbols)
      in \<lparr>stats = map_of (map (\<lambda>s. (s, new_stats s)) tracked),
          alerts = [],
          analyzer_trades = map_of (map (\<lambda>s. (s, [])) tracked),
          emitted = []\<rparr>)"

definition same_triple :: "WhaleAlert \<Rightarrow> WhaleAlert \<Rightarrow> bool" where
  "same_triple a b \<longleftrightarrow>
     alert_symbol a = alert_symbol b \<and> alert_type a = alert_type b \<and> alert_side a = alert_side b"

text \<open>\<^verbatim>\<open>_emit_alert\<close>: only the last alert of the ring is compared.\<close>

definition emit_alert :: "real \<Rightarrow> WhaleAlert \<Rightarrow> OrderFlowAnalyzer \<Rightarrow> OrderFlowAnalyzer" where
  "emit_alert now alert a =
     (if alerts a \<noteq> [] \<and> same_triple (last (alerts a)) alert
         \<and> now - alert_timestamp (last (alerts a)) < 5
      then a
      else a\<lparr>alerts := deque_append 500 (alerts a) alert,
              emitted := emitted a @ [(now, alert)]\<rparr>)"

definition update_volume_stats :: "real \<Rightarrow> string \<Rightarrow> OrderFlowAnalyzer \<Rightarrow> OrderFlowAnalyzer" where
  "update_volume_stats now name a =
     (case analyzer_trades a name of
        None \<Rightarrow> a
      | Some trades \<Rightarrow>
          (let cutoff = now - 60;
               buy_vol = sum_list (map trade_value_usd
                           (filter (\<lambda>t. cutoff < timestamp t \<and> side t = ''buy'') trades));
               sell_vol = sum_list (map trade_value_usd
                           (filter (\<lambda>t. cutoff < timestamp t \<and> side t = ''sell'') trades))
           in case stats a name of
                None \<Rightarrow> a
              | Some st \<Rightarrow>
                  a\<lparr>stats := (stats a)(name \<mapsto> st\<lparr>buy_volume_1m := buy_vol,
                                                       sell_volume_1m := sell_vol\<rparr>)\<rparr>))"

definition handle_trade :: "real \<Rightarrow> Trade \<Rightarrow> OrderFlowAnalyzer \<Rightarrow> OrderFlowAnalyzer" where
  "handle_trade now trade a =
     (let name = trade_symbol trade;
          a1 = (case analyzer_trades a name of
                  None \<Rightarrow> a
                | Some trades \<Rightarrow>
                    a\<lparr>analyzer_trades := (analyzer_trades a)(name \<mapsto> deque_append 100 trades trade)\<rparr>);
          a2 = update_volume_stats now name a1;
          alert = (\<lambda>kind. \<lparr>alert_symbol = name, alert_type = kind, alert_side = side trade,
                            alert_value_usd = trade_value_usd trade,
                            alert_price = trade_price trade,
                            alert_timestamp = timestamp trade\<rparr>)
      in if whale_order_usd \<le> trade_value_usd trade then emit_alert now (alert ''whale_trade'') a2
         else if large_order_usd \<le> trade_value_usd trade then emit_alert now (alert ''large_trade'') a2
         else a2)"

definition detect_walls :: "real \<Rightarrow> string \<Rightarrow> SymbolStats \<Rightarrow> OrderFlowAnalyzer \<Rightarrow> OrderFlowAnalyzer" where
  "detect_walls now name st a =
     (let a1 = (case largest_bid st of
                  Some l \<Rightarrow>
                    if whale_order_usd \<le> value_usd l
                    then emit_alert now
                           \<lparr>alert_symbol = name, alert_type = ''wall_detected'', alert_side = ''buy'',
                            alert_value_usd = value_usd l, alert_price = price l,
                            alert_timestamp = now\<rparr> a
                    else a
                | None \<Rightarrow> a)
      in case largest_ask st of
           Some l \<Rightarrow>
             if whale_order_usd \<le> value_usd l
             then emit_alert now
                    \<lparr>alert_symbol = name, alert_type = ''wall_detected'', alert_side = ''sell'',
                     alert_value_usd = value_usd l, alert_price = price l,
                     alert_timestamp = now\<rparr> a1
             else a1
         | None \<Rightarrow> a1)"

text \<open>
  \<^verbatim>\<open>_detect_imbalance\<close>: the analyzer after it, and the exception it raised, if any. The
  sell alert formats \<^verbatim>\<open>1/stats.imbalance_ratio\<close> into its details while the alert is
  built, so a ratio of zero raises before \<^verbatim>\<open>_emit_alert\<close> is called.
\<close>

definition detect_imbalance ::
  "real \<Rightarrow> string \<Rightarrow> SymbolStats \<Rightarrow> OrderFlowAnalyzer
     \<Rightarrow> OrderFlowAnalyzer \<times> py_error option" where
  "detect_imbalance now name st a =
     (if imbalance_ratio_threshold \<le> stats_imbalance_ratio st then
        (emit_alert now
           \<lparr>alert_symbol = name, alert_type = ''imbalance'', alert_side = ''buy'',
            alert_value_usd = bid_volume_usd st, alert_price = last_price st,
            alert_timestamp = now\<rparr> a, None)
      else if stats_imbalance_ratio st \<le> 1 / imbalance_ratio_threshold then
        (if stats_imbalance_ratio st = 0 then (a, Some ZeroDivisionError)
         else
           (emit_alert now
              \<lparr>alert_symbol = name, alert_type = ''imbalance'', alert_side = ''sell'',
               alert_value_usd = ask_volume_usd st, alert_price = last_price st,
               alert_timestamp = now\<rparr> a, None))
      else (a, None))"

text \<open>
  The statistics of a book, as both \<^verbatim>\<open>_handle_orderbook\<close> and the watcher's
  \<^verbatim>\<open>_on_orderbook\<close> assign them. The three totals are stored before \<^verbatim>\<open>spread_pct\<close> is
  read, so they stay when it raises. The largest level is taken over the whole side.
\<close>

definition stats_totals :: "OrderBook \<Rightarrow> SymbolStats \<Rightarrow> SymbolStats" where
  "stats_totals ob st =
     st\<lparr>bid_volume_usd := bid_total_usd ob, ask_volume_usd := ask_total_usd ob,
        stats_imbalance_ratio := imbalance_ratio ob\<rparr>"

definition stats_levels :: "real \<Rightarrow> real \<Rightarrow> OrderBook \<Rightarrow> SymbolStats \<Rightarrow> SymbolStats" where
  "stats_levels now sp ob st =
     (let st1 = st\<lparr>stats_spread_pct := sp, last_update := now\<rparr>;
          st2 = (case book_bids ob of
                   b # _ \<Rightarrow> st1\<lparr>last_price := price b, largest_bid := py_max value_usd (book_bids ob)\<rparr>
                 | [] \<Rightarrow> st1)
      in case book_asks ob of
           _ # _ \<Rightarrow> st2\<lparr>largest_ask := py_max value_usd (book_asks ob)\<rparr>
         | [] \<Rightarrow> st2)"

text \<open>
  \<^verbatim>\<open>_handle_orderbook\<close>: the analyzer after the handler, and the exception it raised, if
  any (the client's \<^verbatim>\<open>_call_handler\<close> swallows it). An exception of the imbalance
  step leaves the statistics stored and the wall alerts emitted.
\<close>

definition handle_orderbook ::
  "real \<Rightarrow> OrderBook \<Rightarrow> OrderFlowAnalyzer \<Rightarrow> OrderFlowAnalyzer \<times> py_error option" where
  "handle_orderbook now ob a =
     (let name = book_symbol ob
      in case stats a name of
           None \<Rightarrow> (a, None)
         | Some st \<Rightarrow>
             (case spread_pct ob of
                Inl e \<Rightarrow> (a\<lparr>stats := (stats a)(name \<mapsto> stats_totals ob st)\<rparr>, Some e)
              | Inr sp \<Rightarrow>
                  (let st' = stats_levels now sp ob (stats_totals ob st);
                       a1 = a\<lparr>stats := (stats a)(name \<mapsto> st')\<rparr>;
                       a2 = detect_walls now name st' a1
                   in detect_imbalance now name st' a2)))"

text \<open>The events an adapter delivers, each with the clock reading of its handler.\<close>

datatype event = TradeEvent Trade | BookEvent OrderBook

definition analyzer_step :: "OrderFlowAnalyzer \<Rightarrow> real \<times> event \<Rightarrow> OrderFlowAnalyzer" where
  "analyzer_step a ev =
     (case snd ev of
        TradeEvent t \<Rightarrow> handle_trade (fst ev) t a
      | BookEvent ob \<Rightarrow> fst (handle_orderbook (fst ev) ob a))"

definition analyzer_run :: "(real \<times> event) list \<Rightarrow> OrderFlowAnalyzer \<Rightarrow> OrderFlowAnalyzer" where
  "analyzer_run evs a = foldl analyzer_step a evs"

section \<open>The per-coin watcher and the registry (server_v2.py)\<close>

datatype client_kind = BingXWebSocket | HyperliquidWebSocket

text \<open>
  A watcher. A retained trade is the triple (value, side, clock reading at receipt).
  \<open>connections_opened\<close> is a counter the source does not keep: the number of calls of
  \<^verbatim>\<open>self.client.run()\<close>, each of which connects once. \<^verbatim>\<open>last_signal\<close> holds the result
  itself rather than its rounded dictionary.
\<close>

record CoinWatcher =
  exchange :: string
  watcher_symbol :: string
  watcher_key :: string
  client :: "client_kind option"
  watcher_stats :: "SymbolStats option"
  signal_engine :: "SignalEngine option"
  last_signal :: "SignalResult option"
  recent_trades :: "(real \<times> string \<times> real) list"
  running :: bool
  watcher_last_update :: real
  last_orderbook_bids :: "OrderBookLevel list"
  last_orderbook_asks :: "OrderBookLevel list"
  connections_opened :: nat

definition watch_key :: "string \<Rightarrow> string \<Rightarrow> string" where
  "watch_key ex name = ex @ '':'' @ name"

definition new_watcher :: "string \<Rightarrow> string \<Rightarrow> CoinWatcher" where
  "new_watcher ex name =
     \<lparr>exchange = ex, watcher_symbol = name, watcher_key = watch_key ex name,
      client = None, watcher_stats = None, signal_engine = None, last_signal = None,
      recent_trades = [], running = False, watcher_last_update = 0,
      last_orderbook_bids = [], last_orderbook_asks = [], connections_opened = 0\<rparr>"

text \<open>
  \<^verbatim>\<open>CoinWatcher.start\<close>. For \<^verbatim>\<open>bingx\<close> and \<^verbatim>\<open>hyperliquid\<close> it builds the client and
  spawns \<^verbatim>\<open>_run_client\<close> as a task, whose effect is \<open>run_client\<close> below; for any other
  exchange no client is built.
\<close>

definition start :: "CoinWatcher \<Rightarrow> CoinWatcher" where
  "start w =
     (if running w then w
      else
        let w1 = w\<lparr>running := True,
                   watcher_stats := Some (new_stats (watcher_symbol w)),
                   signal_engine := Some (new_engine (watcher_symbol w)),
                   recent_trades := []\<rparr>
        in if exchange w = ''bingx'' then w1\<lparr>client := Some BingXWebSocket\<rparr>
           else if exchange w = ''hyperliquid'' then w1\<lparr>client := Some HyperliquidWebSocket\<rparr>
           else w1)"

text \<open>
  \<^verbatim>\<open>_run_client\<close>: one call of \<^verbatim>\<open>self.client.run()\<close> inside try/except/finally. The
  client's \<^verbatim>\<open>listen\<close> catches the closed connection and returns, or \<^verbatim>\<open>run\<close> raises;
  either way the \<^verbatim>\<open>finally\<close> clause clears \<^verbatim>\<open>running\<close> and the coroutine ends. There is
  no loop and no sleep around the call.
\<close>

datatype run_outcome = ConnectionLost | RunRaised

definition run_client :: "run_outcome \<Rightarrow> CoinWatcher \<Rightarrow> CoinWatcher" where
  "run_client outcome w =
     (let w1 = w\<lparr>connections_opened := connections_opened w + 1\<rparr>
      in case outcome of
           ConnectionLost \<Rightarrow> w1\<lparr>running := False\<rparr>
         | RunRaised \<Rightarrow> w1\<lparr>running := False\<rparr>)"

text \<open>
  \<^verbatim>\<open>_on_trade\<close>: append, then keep the last 100. The broadcast of a trade of 10000 or
  more changes no state of the watcher.
\<close>

definition on_trade :: "real \<Rightarrow> Trade \<Rightarrow> CoinWatcher \<Rightarrow> CoinWatcher" where
  "on_trade now trade w =
     (let rt = recent_trades w @ [(trade_value_usd trade, side trade, now)]
      in w\<lparr>recent_trades := (if 100 < length rt then drop (length rt - 100) rt else rt)\<rparr>)"

text \<open>
  \<^verbatim>\<open>_on_orderbook\<close>: the watcher after the handler, and the exception it raised, if any.
  The age trim happens here, after the statistics and only when an engine exists; every
  retained trade is a triple, so the source's test \<^verbatim>\<open>len(self.recent_trades[0]) == 3\<close>
  holds whenever the list is non-empty.
\<close>

definition trim_trades :: "real \<Rightarrow> (real \<times> string \<times> real) list \<Rightarrow> (real \<times> string \<times> real) list" where
  "trim_trades now rt =
     (let cutoff = now - 60
      in if rt \<noteq> [] then filter (\<lambda>(v, s, t). cutoff < t) rt else [])"

definition on_orderbook ::
  "real \<Rightarrow> OrderBook \<Rightarrow> CoinWatcher \<Rightarrow> CoinWatcher \<times> py_error option" where
  "on_orderbook now ob w =
     (case watcher_stats w of
        None \<Rightarrow> (w, Some AttributeError)
      | Some st \<Rightarrow>
          (case spread_pct ob of
             Inl e \<Rightarrow> (w\<lparr>watcher_stats := Some (stats_totals ob st)\<rparr>, Some e)
           | Inr sp \<Rightarrow>
               (let w1 = w\<lparr>watcher_stats := Some (stats_levels now sp ob (stats_totals ob st)),
                          last_orderbook_bids := book_bids ob,
                          last_orderbook_asks := book_asks ob\<rparr>
                in case signal_engine w1 of
                     None \<Rightarrow> (w1\<lparr>watcher_last_update := now\<rparr>, None)
                   | Some eng \<Rightarrow>
                       (let w2 = w1\<lparr>recent_trades := trim_trades now (recent_trades w1)\<rparr>;
                            trade_data =
                              (if recent_trades w2 \<noteq> []
                               then Some (map (\<lambda>(v, s, t). (v, s)) (recent_trades w2))
                               else None);
                            (eng', res) =
                              analyze eng (last_orderbook_bids w2) (last_orderbook_asks w2) trade_data;
                            w3 = w2\<lparr>signal_engine := Some eng'\<rparr>
                        in case res of
                             Inl e \<Rightarrow> (w3, Some e)
                           | Inr r \<Rightarrow>
                               (w3\<lparr>last_signal := Some r, watcher_last_update := now\<rparr>, None)))))"

definition watcher_step :: "CoinWatcher \<Rightarrow> real \<times> event \<Rightarrow> CoinWatcher" where
  "watcher_step w ev =
     (case snd ev of
        TradeEvent t \<Rightarrow> on_trade (fst ev) t w
      | BookEvent ob \<Rightarrow> fst (on_orderbook (fst ev) ob w))"

definition watcher_run :: "(real \<times> event) list \<Rightarrow> CoinWatcher \<Rightarrow> CoinWatcher" where
  "watcher_run evs w = foldl watcher_step w evs"

subsection \<open>The registry and the contract catalog\<close>

record PerpContract =
  contract_symbol :: string
  base_coin :: string
  quote_coin :: string
  contract_exchange :: string
  list_time :: int
  max_leverage :: int
  min_size :: real
  api_enabled :: bool

text \<open>
  The globals \<^verbatim>\<open>discovery.contracts\<close> and \<^verbatim>\<open>active_watchers\<close>, both keyed by
  \<^verbatim>\<open>"exchange:symbol"\<close>.
\<close>

record server_state =
  contracts :: "string \<rightharpoonup> PerpContract"
  active_watchers :: "string \<rightharpoonup> CoinWatcher"

definition get_contract :: "server_state \<Rightarrow> string \<Rightarrow> string \<Rightarrow> PerpContract option" where
  "get_contract sv ex name = contracts sv (watch_key ex name)"

text \<open>The JSON replies of the REST endpoint, by their \<^verbatim>\<open>status\<close>.\<close>

datatype rest_reply =
  Already_watching string
| Error_reply string
| Watching string

definition start_watching :: "string \<Rightarrow> string \<Rightarrow> server_state \<Rightarrow> server_state \<times> rest_reply" where
  "start_watching ex name sv =
     (let k = watch_key ex name
      in if k \<in> dom (active_watchers sv) then (sv, Already_watching k)
         else case get_contract sv ex name of
                None \<Rightarrow> (sv, Error_reply ''Contract not found'')
              | Some contract \<Rightarrow>
                  (sv\<lparr>active_watchers := (active_watchers sv)(k \<mapsto> start (new_watcher ex name))\<rparr>,
                   Watching k))"

text \<open>
  The \<^verbatim>\<open>watch\<close> action of \<^verbatim>\<open>websocket_endpoint\<close>. \<^verbatim>\<open>msg.get\<close> gives \<open>None\<close> for a
  missing field, and \<^verbatim>\<open>if exchange and symbol\<close> also refuses the empty string. The reply
  is the frame \<^verbatim>\<open>{"type": "watching", "key": key}\<close>; the catalog is not consulted.
\<close>

datatype ws_reply = Ws_watching string

definition ws_watch ::
  "string option \<Rightarrow> string option \<Rightarrow> server_state \<Rightarrow> server_state \<times> ws_reply option" where
  "ws_watch ex_field name_field sv =
     (case (ex_field, name_field) of
        (Some ex, Some name) \<Rightarrow>
          if ex \<noteq> [] \<and> name \<noteq> [] then
            (let k = watch_key ex name;
                 sv1 = (if k \<notin> dom (active_watchers sv)
                        then sv\<lparr>active_watchers :=
                                  (active_watchers sv)(k \<mapsto> start (new_watcher ex name))\<rparr>
                        else sv)
             in (sv1, Some (Ws_watching k)))
          else (sv, None)
      | _ \<Rightarrow> (sv, None))"

section \<open>Reference definitions of the specification\<close>

text \<open>
  The imbalance score in the specification's words: \<open>B\<close> and \<open>A\<close> are the sums of
  price times quantity over the first 20 bids and asks, \<open>r = B / A\<close> with \<open>r = 2\<close> when
  \<open>A = 0\<close> and \<open>r = 0.5\<close> when \<open>B = 0\<close>; the score is \<open>min(100, (r - 1) * 50)\<close> for
  \<open>r \<ge> 1\<close> and \<open>max(-100, (r - 1) * 100)\<close> otherwise.
\<close>

definition spec_imbalance_score :: "OrderBookLevel list \<Rightarrow> OrderBookLevel list \<Rightarrow> real" where
  "spec_imbalance_score bids asks =
     (let B = (\<Sum>i < min 20 (length bids). price (bids ! i) * quantity (bids ! i));
          A = (\<Sum>i < min 20 (length asks). price (asks ! i) * quantity (asks ! i));
          r = (if A = 0 then 2 else if B = 0 then 1 / 2 else B / A)
      in if 1 \<le> r then min 100 ((r - 1) * 50) else max (- 100) ((r - 1) * 100))"

text \<open>
  A well-formed book, as the specification's data model has it: both sides non-empty,
  bids in descending and asks in ascending order of price, the best bid below the best
  ask, prices positive and quantities non-negative. A well-formed trade window holds
  values (price times quantity of a trade) that are non-negative.
\<close>

definition well_formed_book :: "OrderBookLevel list \<Rightarrow> OrderBookLevel list \<Rightarrow> bool" where
  "well_formed_book bids asks \<longleftrightarrow>
     bids \<noteq> [] \<and> asks \<noteq> [] \<and>
     sorted (rev (map price bids)) \<and> sorted (map price asks) \<and>
     price (hd bids) < price (hd asks) \<and>
     list_all (\<lambda>l. 0 < price l \<and> 0 \<le> quantity l) (bids @ asks)"

definition well_formed_window :: "(real \<times> string) list option \<Rightarrow> bool" where
  "well_formed_window window =
     (case window of None \<Rightarrow> True | Some ts \<Rightarrow> list_all (\<lambda>t. 0 \<le> fst t) ts)"

text \<open>
  The first major zone of a side, which is the zone \<open>reversal_part\<close> looks at
  (\<^verbatim>\<open>major_supports[0]\<close>, \<^verbatim>\<open>major_resistances[0]\<close>).
\<close>

definition first_major :: "LiquidityZone list \<Rightarrow> LiquidityZone option" where
  "first_major zs = (case filter is_major zs of [] \<Rightarrow> None | z # _ \<Rightarrow> Some z)"

text \<open>The closed interval from -100 to +100 of a score, and the ranges of a whole result.\<close>

definition in_range :: "real \<Rightarrow> bool" where
  "in_range x \<longleftrightarrow> - 100 \<le> x \<and> x \<le> 100"

definition scores_in_range :: "SignalResult \<Rightarrow> bool" where
  "scores_in_range r \<longleftrightarrow>
     in_range (score r) \<and> 0 \<le> confidence r \<and> confidence r \<le> 100 \<and>
     in_range (imbalance_score r) \<and> in_range (weighted_pressure_score r) \<and>
     in_range (wall_score r) \<and> in_range (spread_score r) \<and>
     in_range (flow_score r) \<and> in_range (momentum_score r)"

section \<open>Example books and zones\<close>

text \<open>
  A book around a mid price of 100: a small best bid, two deeper bid clusters (the one 15%
  below mid larger than the one 5% below) and one ask; and the zones that
  \<open>find_liquidity_zones\<close> derives from it.
\<close>

definition b99 :: OrderBookLevel where "b99 = \<lparr>price = 99, quantity = 1\<rparr>"

definition b95 :: OrderBookLevel where "b95 = \<lparr>price = 95, quantity = 400\<rparr>"

definition b85 :: OrderBookLevel where "b85 = \<lparr>price = 85, quantity = 600\<rparr>"

definition a101 :: OrderBookLevel where "a101 = \<lparr>price = 101, quantity = 1\<rparr>"

definition zone5 :: LiquidityZone where
  "zone5 = \<lparr>zone_price = 95, total_volume_usd = 38000, zone_side = ''bid'', distance_pct = 5,
             order_count = 1, is_major = True\<rparr>"

definition zone15 :: LiquidityZone where
  "zone15 = \<lparr>zone_price = 85, total_volume_usd = 51000, zone_side = ''bid'', distance_pct = 15,
             order_count = 1, is_major = True\<rparr>"

definition zone_above :: LiquidityZone where
  "zone_above = \<lparr>zone_price = 101, total_volume_usd = 101, zone_side = ''ask'', distance_pct = 1,
             order_count = 1, is_major = True\<rparr>"

text \<open>A book with bids and no asks, a whale trade, a small trade, a two-sided book.\<close>

definition bids_only_book :: OrderBook where
  "bids_only_book = \<lparr>book_symbol = ''WIF-USDT'', book_bids = [b99, b95], book_asks = [],
                      book_timestamp = 0\<rparr>"

definition whale_trade_at :: "string \<Rightarrow> real \<Rightarrow> Trade" where
  "whale_trade_at name t =
     \<lparr>trade_symbol = name, trade_price = 2, trade_quantity = 30000, side = ''buy'', timestamp = t\<rparr>"

definition small_trade :: Trade where
  "small_trade = \<lparr>trade_symbol = ''WIF-USDT'', trade_price = 2, trade_quantity = 10,
                   side = ''buy'', timestamp = 0\<rparr>"

definition two_sided_book :: OrderBook where
  "two_sided_book = \<lparr>book_symbol = ''WIF-USDT'', book_bids = [b99], book_asks = [a101],
                      book_timestamp = 0\<rparr>"

text \<open>A server with an empty catalog and no watcher.\<close>

definition empty_server :: server_state where
  "empty_server = \<lparr>contracts = Map.empty, active_watchers = Map.empty\<rparr>"

section \<open>Invariants\<close>




text \<open>
  The invariant of a started watcher: at most 100 retained trades, and the statistics and
  the engine that \<open>start\<close> installs.
\<close>

definition watcher_ready :: "CoinWatcher \<Rightarrow> bool" where
  "watcher_ready w \<longleftrightarrow>
     length (recent_trades w) \<le> 100 \<and> watcher_stats w \<noteq> None \<and> signal_engine w \<noteq> None"

section \<open>Properties of the signal engine\<close>

subsection \<open>Component scores\<close>

lemma top_sum: "sum_list (map value_usd (take n xs)) = (\<Sum>i < min n (length xs). price (xs ! i) * quantity (xs ! i))"
proof -
  have "sum_list (map value_usd (take n xs)) = (\<Sum>i = 0..<length (take n xs). map value_usd (take n xs) ! i)"
    by (simp add: sum_list_sum_nth)
  also have "\<dots> = (\<Sum>i = 0..<min n (length xs). value_usd (xs ! i))"
    by (rule sum.cong) (auto simp: min.commute)
  finally show ?thesis by (simp add: value_usd_def atLeast0LessThan)
qed

lemma clamp_in_range: "in_range (max (- 100) (min 100 x))"
  by (simp add: in_range_def)

lemma wall_in_range: "in_range (fst (calc_wall_score bids asks tb ta))"
  unfolding calc_wall_score_def Let_def fst_conv by (rule clamp_in_range)

lemma momentum_in_range: "in_range (calc_momentum st)"
  unfolding calc_momentum_def Let_def by (simp add: clamp_in_range) (simp add: in_range_def)

lemma unit_times_100:
  fixes q :: real
  assumes "- 1 \<le> q" "q \<le> 1"
  shows "in_range (q * 100)"
  using assms unfolding in_range_def by linarith

lemma ratio_bound:
  fixes b a :: real
  assumes "0 \<le> b" "0 \<le> a" "b + a \<noteq> 0"
  shows "in_range ((b - a) / (b + a) * 100)"
proof -
  have pos: "0 < b + a" using assms by linarith
  have "- 1 \<le> (b - a) / (b + a)" using pos assms by (simp add: pos_le_divide_eq)
  moreover have "(b - a) / (b + a) \<le> 1" using pos assms by (simp add: pos_divide_le_eq)
  ultimately show ?thesis by (rule unit_times_100)
qed

lemma confidence_bounds: "0 \<le> snd (score_to_signal sc) \<and> snd (score_to_signal sc) \<le> 100"
proof -
  have "snd (score_to_signal sc) = min 100 (\<bar>sc\<bar> * 2)"
    by (simp add: score_to_signal_def Let_def)
  then show ?thesis by simp
qed

lemma weighted_score_in_range:
  assumes "in_range (imbalance_score r)" "in_range (weighted_pressure_score r)"
    "in_range (wall_score r)" "in_range (spread_score r)" "in_range (flow_score r)"
    "in_range (momentum_score r)"
  shows "in_range (weighted_score r)"
  using assms unfolding in_range_def weighted_score_def by linarith

lemma imbalance_in_range: "in_range (fst (calc_imbalance bids asks))"
  by (simp add: calc_imbalance_def Let_def in_range_def)

lemma ratio_nonzero: "snd (snd (snd (calc_imbalance bids asks))) \<noteq> 0"
  by (simp add: calc_imbalance_def Let_def)

lemma spread_cases:
  assumes "calc_spread_score bids asks = Inr (sp, bps)"
  shows "sp = 10 \<or> sp = - 10 \<or> sp = 0"
  using assms by (auto simp: calc_spread_score_def Let_def split: list.splits if_splits)

lemma spread_returns:
  assumes "price b0 + price a0 \<noteq> 0"
  shows "\<exists>sp bps. calc_spread_score (b0 # bs) (a0 # as) = Inr (sp, bps)"
  using assms by (simp add: calc_spread_score_def Let_def add.commute)

lemma float_max_ge_one: "1 \<le> float_max"
  by (simp add: float_max_def)

lemma math_exp_nonpos:
  assumes "x \<le> 0"
  shows "math_exp x = Inr (exp x)"
proof -
  have "exp x \<le> 1" using assms by simp
  then have "\<not> float_max < exp x" using float_max_ge_one by linarith
  then show ?thesis by (simp add: math_exp_def)
qed

lemma level_weight_nonneg_distance:
  assumes "0 \<le> d"
  shows "level_weight (1 / 10) d = Inr (exp (- (1 / 10) * d * 100))"
  unfolding level_weight_def using assms by (intro math_exp_nonpos) simp

lemma pressure_sum_nonneg:
  assumes "\<forall>l \<in> set ls. 0 \<le> dist_of l \<and> 0 \<le> value_usd l" "0 \<le> acc"
  shows "\<exists>s. pressure_sum dist_of acc ls = Inr s \<and> 0 \<le> s"
  using assms
proof (induction ls arbitrary: acc)
  case Nil
  then show ?case by simp
next
  case (Cons l ls)
  have w: "level_weight (1 / 10) (dist_of l) = Inr (exp (- (1 / 10) * dist_of l * 100))"
    using Cons.prems(1) by (simp add: level_weight_nonneg_distance)
  have "0 \<le> acc + value_usd l * exp (- (1 / 10) * dist_of l * 100)"
    using Cons.prems by simp
  then show ?case using Cons.IH [of "acc + value_usd l * exp (- (1 / 10) * dist_of l * 100)"]
      Cons.prems(1) w by simp
qed

lemma pressure_in_range:
  assumes mid: "0 < mid"
    and bids: "\<forall>l \<in> set bids. price l \<le> mid \<and> 0 \<le> value_usd l"
    and asks: "\<forall>l \<in> set asks. mid \<le> price l \<and> 0 \<le> value_usd l"
  shows "\<exists>wp. calc_weighted_pressure bids asks mid = Inr wp \<and> in_range wp"
proof -
  have "\<forall>l \<in> set (take 30 bids). 0 \<le> (mid - price l) / mid \<and> 0 \<le> value_usd l"
    using bids mid by (auto dest: in_set_takeD)
  then obtain b where b: "pressure_sum (\<lambda>l. (mid - price l) / mid) 0 (take 30 bids) = Inr b" "0 \<le> b"
    using pressure_sum_nonneg [of "take 30 bids" "\<lambda>l. (mid - price l) / mid" 0] by auto
  have "\<forall>l \<in> set (take 30 asks). 0 \<le> (price l - mid) / mid \<and> 0 \<le> value_usd l"
    using asks mid by (auto dest: in_set_takeD)
  then obtain a where a: "pressure_sum (\<lambda>l. (price l - mid) / mid) 0 (take 30 asks) = Inr a" "0 \<le> a"
    using pressure_sum_nonneg [of "take 30 asks" "\<lambda>l. (price l - mid) / mid" 0] by auto
  show ?thesis
  proof (cases "b + a = 0")
    case True
    then show ?thesis using mid a b by (simp add: calc_weighted_pressure_def in_range_def)
  next
    case False
    then have "in_range ((b - a) / (b + a) * 100)" using a b by (intro ratio_bound)
    then show ?thesis using mid a b False by (simp add: calc_weighted_pressure_def)
  qed
qed

text \<open>What a well-formed book gives the engine.\<close>

lemma sorted_hd_least:
  fixes xs :: "real list"
  assumes "sorted xs" "x \<in> set xs"
  shows "hd xs \<le> x"
  using assms by (cases xs) auto

lemma sorted_rev_hd_greatest:
  fixes xs :: "real list"
  assumes "sorted (rev xs)" "x \<in> set xs"
  shows "x \<le> hd xs"
  using assms by (cases xs) (auto simp: sorted_append)

lemma well_formed_book_facts:
  assumes "well_formed_book bids asks"
  shows "\<exists>b0 bs a0 as. bids = b0 # bs \<and> asks = a0 # as \<and>
           0 < (price b0 + price a0) / 2 \<and>
           (\<forall>l \<in> set bids. price l \<le> (price b0 + price a0) / 2 \<and> 0 \<le> value_usd l) \<and>
           (\<forall>l \<in> set asks. (price b0 + price a0) / 2 \<le> price l \<and> 0 \<le> value_usd l)"
proof -
  obtain b0 bs a0 as where c: "bids = b0 # bs" "asks = a0 # as"
    using assms by (cases bids; cases asks) (auto simp: well_formed_book_def)
  have lt: "price b0 < price a0" using assms c by (simp add: well_formed_book_def)
  have pos: "\<forall>l \<in> set bids \<union> set asks. 0 < price l \<and> 0 \<le> quantity l"
    using assms by (auto simp: well_formed_book_def list_all_iff)
  have val: "\<forall>l \<in> set bids \<union> set asks. 0 \<le> value_usd l"
  proof
    fix l assume "l \<in> set bids \<union> set asks"
    then have "0 < price l" "0 \<le> quantity l" using pos by auto
    then show "0 \<le> value_usd l" by (simp add: value_usd_def)
  qed
  have "0 < price b0" "0 < price a0" using pos c by auto
  then have m: "0 < (price b0 + price a0) / 2" by simp
  have bl: "\<forall>l \<in> set bids. price l \<le> price b0"
  proof
    fix l assume "l \<in> set bids"
    then have "price l \<in> set (map price bids)" by simp
    moreover have "sorted (rev (map price bids))" using assms by (simp add: well_formed_book_def)
    ultimately have "price l \<le> hd (map price bids)" by (rule sorted_rev_hd_greatest [rotated])
    then show "price l \<le> price b0" using c by simp
  qed
  have al: "\<forall>l \<in> set asks. price a0 \<le> price l"
  proof
    fix l assume "l \<in> set asks"
    then have "price l \<in> set (map price asks)" by simp
    moreover have "sorted (map price asks)" using assms by (simp add: well_formed_book_def)
    ultimately have "hd (map price asks) \<le> price l" by (rule sorted_hd_least [rotated])
    then show "price a0 \<le> price l" using c by simp
  qed
  have "\<forall>l \<in> set bids. price l \<le> (price b0 + price a0) / 2 \<and> 0 \<le> value_usd l"
    using bl lt val by fastforce
  moreover have "\<forall>l \<in> set asks. (price b0 + price a0) / 2 \<le> price l \<and> 0 \<le> value_usd l"
    using al lt val by fastforce
  ultimately show ?thesis using c m by blast
qed

lemma flow_in_range:
  assumes "\<forall>t \<in> set ts. 0 \<le> fst t"
  shows "in_range (snd (calc_flow_score ts st))"
proof -
  let ?b = "sum_list (map fst (filter (\<lambda>t. snd t = ''buy'') ts))"
  let ?s = "sum_list (map fst (filter (\<lambda>t. snd t = ''sell'') ts))"
  have b: "0 \<le> ?b" using assms by (intro sum_list_nonneg) auto
  have s: "0 \<le> ?s" using assms by (intro sum_list_nonneg) auto
  show ?thesis
  proof (cases "?b + ?s = 0")
    case True
    then show ?thesis by (simp add: calc_flow_score_def Let_def in_range_def)
  next
    case False
    then have "in_range ((?b - ?s) / (?b + ?s) * 100)" using b s by (intro ratio_bound)
    then show ?thesis using False by (simp add: calc_flow_score_def Let_def)
  qed
qed

lemma suggestions_return:
  assumes "res_imbalance_ratio r \<noteq> 0"
  shows "\<exists>p. generate_suggestions r = Inr p"
  using assms by (simp add: generate_suggestions_def scalp_part_def Let_def)

lemma reasons_return:
  assumes "res_imbalance_ratio r \<noteq> 0"
  shows "\<exists>rs. generate_reasons r = Inr rs"
  using assms by (simp add: generate_reasons_def Let_def)

lemma analyze_components:
  assumes wp: "calc_weighted_pressure (b0 # bs) (a0 # as) ((price b0 + price a0) / 2) = Inr wp"
    and sp: "calc_spread_score (b0 # bs) (a0 # as) = Inr (sp, bps)"
  shows "\<exists>r st'. snd (analyze st (b0 # bs) (a0 # as) window) = Inr r \<and>
           imbalance_score r = fst (calc_imbalance (b0 # bs) (a0 # as)) \<and>
           weighted_pressure_score r = wp \<and>
           wall_score r = fst (calc_wall_score (b0 # bs) (a0 # as)
                                 (fst (snd (calc_imbalance (b0 # bs) (a0 # as))))
                                 (fst (snd (snd (calc_imbalance (b0 # bs) (a0 # as)))))) \<and>
           spread_score r = sp \<and>
           flow_score r = (case window of None \<Rightarrow> 0
                           | Some ts \<Rightarrow> if ts = [] then 0 else snd (calc_flow_score ts st)) \<and>
           momentum_score r = calc_momentum st' \<and>
           score r = weighted_score r \<and>
           confidence r = snd (score_to_signal (score r)) \<and>
           signal r = fst (score_to_signal (score r))"
proof -
  obtain imb bv av ratio where ci: "calc_imbalance (b0 # bs) (a0 # as) = (imb, bv, av, ratio)"
    by (cases "calc_imbalance (b0 # bs) (a0 # as)") auto
  have rz: "ratio \<noteq> 0" using ratio_nonzero [of "b0 # bs" "a0 # as"] ci by simp
  obtain wall lb la where cw: "calc_wall_score (b0 # bs) (a0 # as) bv av = (wall, lb, la)"
    by (cases "calc_wall_score (b0 # bs) (a0 # as) bv av") auto
  show ?thesis
    unfolding analyze_def
    using wp sp ci cw rz
    by (auto simp: Let_def new_result_def weighted_score_def generate_suggestions_def scalp_part_def generate_reasons_def
        split: prod.splits option.splits sum.splits)
qed

subsection \<open>Ranges of the scores\<close>

text \<open>
  C1: for every well-formed book (non-empty bids and asks) and every engine state and
  well-formed trade window, \<open>analyze\<close> returns a result whose final score and six
  component scores lie in [-100, +100] and whose confidence lies in [0, 100]; the weighted
  sum cannot leave the range when the components are in it (\<open>weighted_score_in_range\<close>).
\<close>

theorem analyze_scores_in_range:
  assumes book: "well_formed_book bids asks"
    and trades: "well_formed_window window"
  shows "\<exists>r. snd (analyze st bids asks window) = Inr r \<and> scores_in_range r"
proof -
  obtain b0 bs a0 as where c: "bids = b0 # bs" "asks = a0 # as"
    and m: "0 < (price b0 + price a0) / 2"
    and vb: "\<forall>l \<in> set bids. price l \<le> (price b0 + price a0) / 2 \<and> 0 \<le> value_usd l"
    and va: "\<forall>l \<in> set asks. (price b0 + price a0) / 2 \<le> price l \<and> 0 \<le> value_usd l"
    using well_formed_book_facts [OF book] by blast
  have mid: "price b0 + price a0 \<noteq> 0" using m by simp
  obtain wp where wp: "calc_weighted_pressure (b0 # bs) (a0 # as) ((price b0 + price a0) / 2) = Inr wp"
    and wpr: "in_range wp"
    using pressure_in_range [OF m vb va] c by auto
  obtain sp bps where sp: "calc_spread_score (b0 # bs) (a0 # as) = Inr (sp, bps)"
    using spread_returns [OF mid] by blast
  have spr: "in_range sp" using spread_cases [OF sp] by (auto simp: in_range_def)
  obtain r st' where r: "snd (analyze st (b0 # bs) (a0 # as) window) = Inr r"
    and cs: "imbalance_score r = fst (calc_imbalance (b0 # bs) (a0 # as))"
      "weighted_pressure_score r = wp"
      "wall_score r = fst (calc_wall_score (b0 # bs) (a0 # as)
                                 (fst (snd (calc_imbalance (b0 # bs) (a0 # as))))
                                 (fst (snd (snd (calc_imbalance (b0 # bs) (a0 # as))))))"
      "spread_score r = sp"
      "flow_score r = (case window of None \<Rightarrow> 0
                           | Some ts \<Rightarrow> if ts = [] then 0 else snd (calc_flow_score ts st))"
      "momentum_score r = calc_momentum st'"
      "score r = weighted_score r"
      "confidence r = snd (score_to_signal (score r))"
    using analyze_components [OF wp sp, of st window] by blast
  have fl: "in_range (flow_score r)"
  proof (cases window)
    case None
    then show ?thesis using cs(5) by (simp add: in_range_def)
  next
    case (Some ts)
    then have "\<forall>t \<in> set ts. 0 \<le> fst t"
      using trades by (simp add: well_formed_window_def list_all_iff)
    then have "in_range (snd (calc_flow_score ts st))" by (rule flow_in_range)
    then show ?thesis using cs(5) Some by (simp add: in_range_def)
  qed
  have comps: "in_range (imbalance_score r)" "in_range (weighted_pressure_score r)"
    "in_range (wall_score r)" "in_range (spread_score r)" "in_range (momentum_score r)"
    using cs wpr spr imbalance_in_range wall_in_range momentum_in_range by simp_all
  have sc: "in_range (score r)"
    using weighted_score_in_range [of r] comps fl cs(7) by simp
  have cf: "0 \<le> confidence r \<and> confidence r \<le> 100"
    using confidence_bounds [of "score r"] cs(8) by simp
  show ?thesis using r c comps fl sc cf unfolding scores_in_range_def by blast
qed

text \<open>The theorem at a two-level bid side, one ask and a window of two trades.\<close>

theorem analyze_scores_in_range_witness:
  "\<exists>r. snd (analyze (new_engine ''WIF-USDT'')
             [\<lparr>price = 100, quantity = 5\<rparr>, \<lparr>price = 99, quantity = 3\<rparr>]
             [\<lparr>price = 101, quantity = 2\<rparr>]
             (Some [(1000, ''buy''), (400, ''sell'')])) = Inr r \<and> scores_in_range r"
  using analyze_scores_in_range
    [of "[\<lparr>price = 100, quantity = 5\<rparr>, \<lparr>price = 99, quantity = 3\<rparr>]"
        "[\<lparr>price = 101, quantity = 2\<rparr>]" "Some [(1000, ''buy''), (400, ''sell'')]"
        "new_engine ''WIF-USDT''"]
  by (simp add: well_formed_book_def well_formed_window_def)

text \<open>
  Outside that domain the engine checks nothing. A negative quantity (on a crossed book)
  drives the weighted pressure to 200; best prices of zero make \<open>analyze\<close> raise on the
  division by the mid price; and bids that are not in descending order can put a level so
  far above the mid price that \<^verbatim>\<open>math.exp\<close> overflows.
\<close>

lemma exp_990_overflows: "float_max < exp 990"
proof -
  have "(5 / 2 :: real) \<le> exp 1"
    using exp_lower_Taylor_quadratic [of "1 :: real"] by simp
  then have "(5 / 2 :: real) ^ 990 \<le> exp 1 ^ 990" by (intro power_mono) simp_all
  also have "exp (1 :: real) ^ 990 = exp 990"
    using exp_of_nat_mult [of 990 "1 :: real"] by simp
  finally have "(5 / 2 :: real) ^ 990 \<le> exp 990" .
  moreover have "(64 :: real) ^ 198 \<le> ((5 / 2) ^ 5) ^ 198"
    by (intro power_mono) (simp_all add: power_divide)
  moreover have "((5 / 2 :: real) ^ 5) ^ 198 = (5 / 2) ^ 990"
    by (simp only: power_mult [symmetric]) simp
  moreover have "float_max < (64 :: real) ^ 198"
    by (simp add: float_max_def)
  ultimately show ?thesis by linarith
qed

lemma analyze_outside_domain:
  "(\<exists>r. snd (analyze (new_engine ''WIF-USDT'')
              [\<lparr>price = 100, quantity = 3\<rparr>] [\<lparr>price = 100, quantity = - 1\<rparr>] None) = Inr r
        \<and> weighted_pressure_score r = 200 \<and> \<not> scores_in_range r)
   \<and> snd (analyze (new_engine ''WIF-USDT'')
              [\<lparr>price = 0, quantity = 1\<rparr>] [\<lparr>price = 0, quantity = 1\<rparr>] None)
       = Inl ZeroDivisionError
   \<and> snd (analyze (new_engine ''WIF-USDT'')
              [\<lparr>price = 1, quantity = 1\<rparr>, \<lparr>price = 100, quantity = 1\<rparr>]
              [\<lparr>price = 1, quantity = 1\<rparr>] None)
       = Inl OverflowError"
proof (intro conjI)
  let ?b = "\<lparr>price = 100, quantity = 3\<rparr>" and ?a = "\<lparr>price = 100, quantity = - 1\<rparr>"
  have e0: "math_exp 0 = Inr 1" using math_exp_nonpos [of 0] by simp
  have wp: "calc_weighted_pressure [?b] [?a] ((price ?b + price ?a) / 2) = Inr 200"
    by (simp add: calc_weighted_pressure_def level_weight_def e0 value_usd_def)
  have sp: "calc_spread_score [?b] [?a] = Inr (10, 0)"
    by (simp add: calc_spread_score_def)
  obtain r where "snd (analyze (new_engine ''WIF-USDT'') [?b] [?a] None) = Inr r"
    and "weighted_pressure_score r = 200"
    using analyze_components [OF wp sp, of "new_engine ''WIF-USDT''" None] by blast
  then show "\<exists>r. snd (analyze (new_engine ''WIF-USDT'') [?b] [?a] None) = Inr r
        \<and> weighted_pressure_score r = 200 \<and> \<not> scores_in_range r"
    by (auto simp: scores_in_range_def in_range_def)
next
  show "snd (analyze (new_engine ''WIF-USDT'')
              [\<lparr>price = 0, quantity = 1\<rparr>] [\<lparr>price = 0, quantity = 1\<rparr>] None)
       = Inl ZeroDivisionError"
    by (simp add: analyze_def calc_imbalance_def calc_weighted_pressure_def Let_def)
next
  have e0: "math_exp 0 = Inr 1" using math_exp_nonpos [of 0] by simp
  have e990: "math_exp 990 = Inl OverflowError"
    using exp_990_overflows by (simp add: math_exp_def)
  have "calc_weighted_pressure [\<lparr>price = 1, quantity = 1\<rparr>, \<lparr>price = 100, quantity = 1\<rparr>]
          [\<lparr>price = 1, quantity = 1\<rparr>] 1 = Inl OverflowError"
    by (simp add: calc_weighted_pressure_def level_weight_def e0 e990)
  then show "snd (analyze (new_engine ''WIF-USDT'')
              [\<lparr>price = 1, quantity = 1\<rparr>, \<lparr>price = 100, quantity = 1\<rparr>]
              [\<lparr>price = 1, quantity = 1\<rparr>] None)
       = Inl OverflowError"
    by (simp add: analyze_def calc_imbalance_def Let_def)
qed

subsection \<open>Insufficient data\<close>

text \<open>
  C2: when the bid list or the ask list is empty, \<open>analyze\<close> returns (it does not raise)
  a NEUTRAL result with score 0 and confidence 0 whose only reason is
  \<^verbatim>\<open>Insufficient data\<close>.
\<close>

theorem analyze_insufficient_data:
  assumes "bids = [] \<or> asks = []"
  shows "\<exists>r. snd (analyze st bids asks window) = Inr r \<and> signal r = NEUTRAL \<and> score r = 0
           \<and> confidence r = 0 \<and> reasons r = [Literal ''Insufficient data'']"
  using assms by (auto simp: analyze_def new_result_def split: list.splits)

theorem analyze_insufficient_data_witness:
  "\<exists>r. snd (analyze (new_engine ''WIF-USDT'') [] [\<lparr>price = 101, quantity = 2\<rparr>]
             (Some [(1000, ''buy'')])) = Inr r
       \<and> signal r = NEUTRAL \<and> score r = 0 \<and> confidence r = 0
       \<and> reasons r = [Literal ''Insufficient data'']"
  using analyze_insufficient_data
    [of "[]" "[\<lparr>price = 101, quantity = 2\<rparr>]" "new_engine ''WIF-USDT''"
        "Some [(1000, ''buy'')]"]
  by simp

subsection \<open>The imbalance score\<close>

text \<open>The score stored in the result of \<open>analyze\<close> is the one \<open>calc_imbalance\<close> computes.\<close>

lemma analyze_imbalance_score:
  assumes "snd (analyze st (b0 # bs) (a0 # as) window) = Inr r"
  shows "imbalance_score r = fst (calc_imbalance (b0 # bs) (a0 # as))"
proof -
  obtain wp where wp: "calc_weighted_pressure (b0 # bs) (a0 # as) ((price b0 + price a0) / 2) = Inr wp"
    using assms by (cases "calc_weighted_pressure (b0 # bs) (a0 # as) ((price b0 + price a0) / 2)")
      (auto simp: analyze_def Let_def split: prod.splits)
  obtain sp bps where sp: "calc_spread_score (b0 # bs) (a0 # as) = Inr (sp, bps)"
    using assms wp by (cases "calc_spread_score (b0 # bs) (a0 # as)")
      (auto simp: analyze_def Let_def split: prod.splits)
  show ?thesis
    using analyze_components [OF wp sp, of st window] assms by auto
qed

text \<open>
  C3: for all bid and ask lists the imbalance score computed by \<open>calc_imbalance\<close> equals
  the specification's reference definition.
\<close>

theorem imbalance_score_matches_spec: "fst (calc_imbalance bids asks) = spec_imbalance_score bids asks"
  by (simp add: calc_imbalance_def spec_imbalance_score_def top_sum Let_def)

subsection \<open>Reversal suggestions\<close>

lemma well_formed_steps:
  assumes "well_formed_book (b0 # bs) (a0 # as)"
  shows "\<exists>wp sp bps.
           calc_weighted_pressure (b0 # bs) (a0 # as) ((price b0 + price a0) / 2) = Inr wp \<and>
           calc_spread_score (b0 # bs) (a0 # as) = Inr (sp, bps)"
proof -
  obtain b0' bs' a0' as' where c: "b0 # bs = b0' # bs'" "a0 # as = a0' # as'"
    and m: "0 < (price b0' + price a0') / 2"
    and vb: "\<forall>l \<in> set (b0 # bs). price l \<le> (price b0' + price a0') / 2 \<and> 0 \<le> value_usd l"
    and va: "\<forall>l \<in> set (a0 # as). (price b0' + price a0') / 2 \<le> price l \<and> 0 \<le> value_usd l"
    using well_formed_book_facts [OF assms] by blast
  have e: "b0' = b0" "a0' = a0" using c by simp_all
  have "price b0 + price a0 \<noteq> 0" using m e by simp
  then obtain sp bps where "calc_spread_score (b0 # bs) (a0 # as) = Inr (sp, bps)"
    using spread_returns by blast
  moreover obtain wp where
    "calc_weighted_pressure (b0 # bs) (a0 # as) ((price b0 + price a0) / 2) = Inr wp"
    using pressure_in_range [OF m vb va] e by auto
  ultimately show ?thesis by blast
qed

text \<open>A pass that returns has passed the two steps that can raise.\<close>

lemma analyze_returned:
  assumes "snd (analyze st (b0 # bs) (a0 # as) window) = Inr r"
  shows "\<exists>wp sp bps.
           calc_weighted_pressure (b0 # bs) (a0 # as) ((price b0 + price a0) / 2) = Inr wp \<and>
           calc_spread_score (b0 # bs) (a0 # as) = Inr (sp, bps)"
proof -
  obtain wp where wp: "calc_weighted_pressure (b0 # bs) (a0 # as) ((price b0 + price a0) / 2) = Inr wp"
    using assms by (cases "calc_weighted_pressure (b0 # bs) (a0 # as) ((price b0 + price a0) / 2)")
      (auto simp: analyze_def Let_def split: prod.splits)
  obtain sp bps where sp: "calc_spread_score (b0 # bs) (a0 # as) = Inr (sp, bps)"
    using assms wp by (cases "calc_spread_score (b0 # bs) (a0 # as)")
      (auto simp: analyze_def Let_def split: prod.splits)
  show ?thesis using wp sp by blast
qed

lemma reversal_part_frame:
  "reversal_part (r\<lparr>reasons := rs\<rparr>) = reversal_part r"
  "reversal_part (r\<lparr>scalp_suggestion := sc\<rparr>) = reversal_part r"
  "reversal_part (r\<lparr>reversal_suggestion := rv\<rparr>) = reversal_part r"
  by (simp_all add: reversal_part_def)

lemma analyze_zones:
  assumes wp: "calc_weighted_pressure (b0 # bs) (a0 # as) ((price b0 + price a0) / 2) = Inr wp"
    and sp: "calc_spread_score (b0 # bs) (a0 # as) = Inr (sp, bps)"
  shows "\<exists>r. snd (analyze st (b0 # bs) (a0 # as) window) = Inr r \<and>
           mid_price r = (price b0 + price a0) / 2 \<and>
           support_zones r = fst (find_liquidity_zones (b0 # bs) (a0 # as) ((price b0 + price a0) / 2)) \<and>
           resistance_zones r = snd (find_liquidity_zones (b0 # bs) (a0 # as) ((price b0 + price a0) / 2)) \<and>
           reversal_suggestion r = reversal_part r"
proof -
  obtain imb bv av ratio where ci: "calc_imbalance (b0 # bs) (a0 # as) = (imb, bv, av, ratio)"
    by (cases "calc_imbalance (b0 # bs) (a0 # as)") auto
  have rz: "ratio \<noteq> 0" using ratio_nonzero [of "b0 # bs" "a0 # as"] ci by simp
  obtain wall lb la where cw: "calc_wall_score (b0 # bs) (a0 # as) bv av = (wall, lb, la)"
    by (cases "calc_wall_score (b0 # bs) (a0 # as) bv av") auto
  have m: "(price b0 + price a0) / 2 \<noteq> 0"
    using wp by (auto simp: calc_weighted_pressure_def split: if_splits)
  show ?thesis
    unfolding analyze_def
    using wp sp ci cw rz m
    by (auto simp: Let_def new_result_def generate_suggestions_def scalp_part_def generate_reasons_def reversal_part_frame
        split: prod.splits option.splits sum.splits)
qed

text \<open>
  The zones of each side come out of \<open>find_liquidity_zones\<close> in order of decreasing
  volume, so the first major zone of a side is a major zone of largest volume.
\<close>

lemma zones_sorted:
  "sorted (map (\<lambda>z. - total_volume_usd z) (fst (find_liquidity_zones bids asks mid)))"
  "sorted (map (\<lambda>z. - total_volume_usd z) (snd (find_liquidity_zones bids asks mid)))"
  by (simp_all add: find_liquidity_zones_def sort_by_volume_def)

lemma first_major_largest:
  assumes "sorted (map (\<lambda>z. - total_volume_usd z) zs)" "first_major zs = Some s"
  shows "is_major s \<and> s \<in> set zs \<and>
         (\<forall>z \<in> set zs. is_major z \<longrightarrow> total_volume_usd z \<le> total_volume_usd s)"
  using assms
proof (induction zs)
  case Nil
  then show ?case by (simp add: first_major_def)
next
  case (Cons z zs)
  show ?case
  proof (cases "is_major z")
    case True
    then have "s = z" using Cons.prems(2) by (simp add: first_major_def)
    then show ?thesis using True Cons.prems(1) by auto
  next
    case False
    then have "first_major zs = Some s" using Cons.prems(2) by (simp add: first_major_def)
    then show ?thesis using Cons.IH Cons.prems(1) False by auto
  qed
qed

text \<open>What \<open>reversal_part\<close> proposes, by the first major zone of each side.\<close>

lemma reversal_part_long:
  assumes "first_major (support_zones r) = Some s" "distance_pct s < 10"
  shows "\<exists>t. reversal_part r = Some t \<and> action t = ''LONG'' \<and> mode t = ''reversal'' \<and>
             entry_price t = zone_price s \<and>
             stop_price t = zone_price s * (97 / 100) \<and>
             target_price t =
               (case first_major (resistance_zones r) of
                  None \<Rightarrow> mid_price r * (1 + distance_pct s / 100)
                | Some z \<Rightarrow> zone_price z) \<and>
             sug_confidence t = min 70 (total_volume_usd s / 10000)"
  using assms
  by (auto simp: reversal_part_def first_major_def Let_def split: list.splits)

lemma reversal_part_short:
  assumes "\<forall>s. first_major (support_zones r) = Some s \<longrightarrow> \<not> distance_pct s < 10"
    and "first_major (resistance_zones r) = Some z" "distance_pct z < 10"
  shows "\<exists>t. reversal_part r = Some t \<and> action t = ''SHORT'' \<and> mode t = ''reversal'' \<and>
             entry_price t = zone_price z \<and>
             stop_price t = zone_price z * (103 / 100) \<and>
             target_price t =
               (case first_major (support_zones r) of
                  None \<Rightarrow> mid_price r * (1 - distance_pct z / 100)
                | Some s \<Rightarrow> zone_price s) \<and>
             sug_confidence t = min 70 (total_volume_usd z / 10000)"
  using assms
  by (auto simp: reversal_part_def first_major_def Let_def split: list.splits)

lemma reversal_part_none:
  assumes "\<forall>s. first_major (support_zones r) = Some s \<longrightarrow> \<not> distance_pct s < 10"
    and "\<forall>z. first_major (resistance_zones r) = Some z \<longrightarrow> \<not> distance_pct z < 10"
  shows "reversal_part r = None"
  using assms
  by (auto simp: reversal_part_def first_major_def Let_def split: list.splits)

text \<open>The result of a pass: its zones are those of the book, its reversal is \<open>reversal_part\<close>.\<close>

lemma analyze_reversal:
  assumes "snd (analyze st bids asks window) = Inr r"
  shows "reversal_suggestion r = reversal_part r \<and>
         sorted (map (\<lambda>z. - total_volume_usd z) (support_zones r)) \<and>
         sorted (map (\<lambda>z. - total_volume_usd z) (resistance_zones r))"
proof (cases "bids = [] \<or> asks = []")
  case True
  then have "r = new_result\<lparr>reasons := [Literal ''Insufficient data'']\<rparr>"
    using assms by (auto simp: analyze_def split: list.splits)
  then show ?thesis by (simp add: new_result_def reversal_part_def first_major_def)
next
  case False
  then obtain b0 bs a0 as where c: "bids = b0 # bs" "asks = a0 # as"
    by (cases bids; cases asks) auto
  obtain wp sp bps
    where wp: "calc_weighted_pressure (b0 # bs) (a0 # as) ((price b0 + price a0) / 2) = Inr wp"
      and sp: "calc_spread_score (b0 # bs) (a0 # as) = Inr (sp, bps)"
    using analyze_returned assms c by blast
  show ?thesis
    using analyze_zones [OF wp sp, of st window] assms c zones_sorted by auto
qed

text \<open>
  C6 (as amended): in every analysis pass the zones of each side are in order of
  decreasing volume, so the first major zone of a side is a major zone of largest volume;
  if the first major support zone is less than 10% away, the reversal is a LONG at that
  zone's price, with stop at 0.97 times that price, target at the first major resistance
  price if one exists and otherwise mid * (1 + dist_pct/100), and confidence
  min(70, zone_volume/10000); if no LONG is proposed and the first major resistance zone
  is less than 10% away, the reversal is the symmetric SHORT; if neither first major zone
  is that close, there is no reversal. LONG wins when both qualify.
\<close>

theorem reversal_rule:
  assumes ret: "snd (analyze st bids asks window) = Inr r"
  shows
   "(\<forall>s. first_major (support_zones r) = Some s \<longrightarrow>
        is_major s \<and> s \<in> set (support_zones r) \<and>
        (\<forall>z \<in> set (support_zones r). is_major z \<longrightarrow> total_volume_usd z \<le> total_volume_usd s)) \<and>
    (\<forall>s. first_major (resistance_zones r) = Some s \<longrightarrow>
        is_major s \<and> s \<in> set (resistance_zones r) \<and>
        (\<forall>z \<in> set (resistance_zones r). is_major z \<longrightarrow> total_volume_usd z \<le> total_volume_usd s)) \<and>
    (\<forall>s. first_major (support_zones r) = Some s \<and> distance_pct s < 10 \<longrightarrow>
        (\<exists>t. reversal_suggestion r = Some t \<and> action t = ''LONG'' \<and> mode t = ''reversal'' \<and>
             entry_price t = zone_price s \<and>
             stop_price t = zone_price s * (97 / 100) \<and>
             target_price t =
               (case first_major (resistance_zones r) of
                  None \<Rightarrow> mid_price r * (1 + distance_pct s / 100)
                | Some z \<Rightarrow> zone_price z) \<and>
             sug_confidence t = min 70 (total_volume_usd s / 10000))) \<and>
    (\<forall>z. (\<forall>s. first_major (support_zones r) = Some s \<longrightarrow> \<not> distance_pct s < 10) \<and>
         first_major (resistance_zones r) = Some z \<and> distance_pct z < 10 \<longrightarrow>
        (\<exists>t. reversal_suggestion r = Some t \<and> action t = ''SHORT'' \<and> mode t = ''reversal'' \<and>
             entry_price t = zone_price z \<and>
             stop_price t = zone_price z * (103 / 100) \<and>
             target_price t =
               (case first_major (support_zones r) of
                  None \<Rightarrow> mid_price r * (1 - distance_pct z / 100)
                | Some s \<Rightarrow> zone_price s) \<and>
             sug_confidence t = min 70 (total_volume_usd z / 10000))) \<and>
    ((\<forall>s. first_major (support_zones r) = Some s \<longrightarrow> \<not> distance_pct s < 10) \<and>
     (\<forall>z. first_major (resistance_zones r) = Some z \<longrightarrow> \<not> distance_pct z < 10) \<longrightarrow>
        reversal_suggestion r = None)"
proof -
  have rv: "reversal_suggestion r = reversal_part r"
    and ss: "sorted (map (\<lambda>z. - total_volume_usd z) (support_zones r))"
    and sr: "sorted (map (\<lambda>z. - total_volume_usd z) (resistance_zones r))"
    using analyze_reversal [OF ret] by simp_all
  have p1: "\<forall>s. first_major (support_zones r) = Some s \<longrightarrow>
        is_major s \<and> s \<in> set (support_zones r) \<and>
        (\<forall>z \<in> set (support_zones r). is_major z \<longrightarrow> total_volume_usd z \<le> total_volume_usd s)"
    using first_major_largest [OF ss] by blast
  have p2: "\<forall>s. first_major (resistance_zones r) = Some s \<longrightarrow>
        is_major s \<and> s \<in> set (resistance_zones r) \<and>
        (\<forall>z \<in> set (resistance_zones r). is_major z \<longrightarrow> total_volume_usd z \<le> total_volume_usd s)"
    using first_major_largest [OF sr] by blast
  have p3: "\<forall>s. first_major (support_zones r) = Some s \<and> distance_pct s < 10 \<longrightarrow>
        (\<exists>t. reversal_suggestion r = Some t \<and> action t = ''LONG'' \<and> mode t = ''reversal'' \<and>
             entry_price t = zone_price s \<and>
             stop_price t = zone_price s * (97 / 100) \<and>
             target_price t =
               (case first_major (resistance_zones r) of
                  None \<Rightarrow> mid_price r * (1 + distance_pct s / 100)
                | Some z \<Rightarrow> zone_price z) \<and>
             sug_confidence t = min 70 (total_volume_usd s / 10000))"
  proof (intro allI impI)
    fix s assume "first_major (support_zones r) = Some s \<and> distance_pct s < 10"
    then show "\<exists>t. reversal_suggestion r = Some t \<and> action t = ''LONG'' \<and> mode t = ''reversal'' \<and>
             entry_price t = zone_price s \<and>
             stop_price t = zone_price s * (97 / 100) \<and>
             target_price t =
               (case first_major (resistance_zones r) of
                  None \<Rightarrow> mid_price r * (1 + distance_pct s / 100)
                | Some z \<Rightarrow> zone_price z) \<and>
             sug_confidence t = min 70 (total_volume_usd s / 10000)"
      using reversal_part_long [of r s] rv by simp
  qed
  have p4: "\<forall>z. (\<forall>s. first_major (support_zones r) = Some s \<longrightarrow> \<not> distance_pct s < 10) \<and>
         first_major (resistance_zones r) = Some z \<and> distance_pct z < 10 \<longrightarrow>
        (\<exists>t. reversal_suggestion r = Some t \<and> action t = ''SHORT'' \<and> mode t = ''reversal'' \<and>
             entry_price t = zone_price z \<and>
             stop_price t = zone_price z * (103 / 100) \<and>
             target_price t =
               (case first_major (support_zones r) of
                  None \<Rightarrow> mid_price r * (1 - distance_pct z / 100)
                | Some s \<Rightarrow> zone_price s) \<and>
             sug_confidence t = min 70 (total_volume_usd z / 10000))"
  proof (intro allI impI)
    fix z assume "(\<forall>s. first_major (support_zones r) = Some s \<longrightarrow> \<not> distance_pct s < 10) \<and>
         first_major (resistance_zones r) = Some z \<and> distance_pct z < 10"
    then show "\<exists>t. reversal_suggestion r = Some t \<and> action t = ''SHORT'' \<and> mode t = ''reversal'' \<and>
             entry_price t = zone_price z \<and>
             stop_price t = zone_price z * (103 / 100) \<and>
             target_price t =
               (case first_major (support_zones r) of
                  None \<Rightarrow> mid_price r * (1 - distance_pct z / 100)
                | Some s \<Rightarrow> zone_price s) \<and>
             sug_confidence t = min 70 (total_volume_usd z / 10000)"
      using reversal_part_short [of r z] rv by simp
  qed
  have p5: "(\<forall>s. first_major (support_zones r) = Some s \<longrightarrow> \<not> distance_pct s < 10) \<and>
     (\<forall>z. first_major (resistance_zones r) = Some z \<longrightarrow> \<not> distance_pct z < 10) \<longrightarrow>
        reversal_suggestion r = None"
    using reversal_part_none [of r] rv by simp
  from p1 p2 p3 p4 p5 show ?thesis by (intro conjI)
qed

lemma zones_ex: "find_liquidity_zones [b99, b95, b85] [a101] 100 = 
  ([\<lparr>zone_price = 85, total_volume_usd = 51000, zone_side = ''bid'', distance_pct = 15, order_count = 1, is_major = True\<rparr>,
    \<lparr>zone_price = 95, total_volume_usd = 38000, zone_side = ''bid'', distance_pct = 5, order_count = 1, is_major = True\<rparr>,
    \<lparr>zone_price = 99, total_volume_usd = 99, zone_side = ''bid'', distance_pct = 1, order_count = 1, is_major = False\<rparr>],
   [\<lparr>zone_price = 101, total_volume_usd = 101, zone_side = ''ask'', distance_pct = 1, order_count = 1, is_major = True\<rparr>])"
  by (simp add: find_liquidity_zones_def collect_clusters_def zones_of_def sort_by_volume_def
      bid_distance_def ask_distance_def cluster_key_def py_round_def value_usd_def
      b99_def b95_def b85_def a101_def Let_def)

lemma zones_long: "find_liquidity_zones [b99, b95] [a101] 100 =
  ([zone5,
    \<lparr>zone_price = 99, total_volume_usd = 99, zone_side = ''bid'', distance_pct = 1,
      order_count = 1, is_major = False\<rparr>],
   [zone_above])"
  by (simp add: find_liquidity_zones_def collect_clusters_def zones_of_def sort_by_volume_def
      bid_distance_def ask_distance_def cluster_key_def py_round_def value_usd_def
      b99_def b95_def a101_def zone5_def zone_above_def Let_def)

text \<open>
  The theorem at a pass over the bids 99 x 1 and 95 x 400 and the ask 101 x 1: the first
  major support zone is the cluster 5% below mid, and the LONG is proposed there.
\<close>

theorem reversal_rule_witness:
  "\<exists>r t. snd (analyze (new_engine ''WIF-USDT'') [b99, b95] [a101] None) = Inr r \<and>
     first_major (support_zones r) = Some zone5 \<and>
     reversal_suggestion r = Some t \<and> action t = ''LONG'' \<and> entry_price t = 95 \<and>
     stop_price t = 95 * (97 / 100) \<and> target_price t = 101 \<and> sug_confidence t = 38 / 10"
proof -
  have m: "(price b99 + price a101) / 2 = 100" by (simp add: b99_def a101_def)
  have "well_formed_book [b99, b95] [a101]"
    by (simp add: well_formed_book_def b99_def b95_def a101_def)
  from well_formed_steps [OF this]
  obtain wp sp bps
    where wp: "calc_weighted_pressure [b99, b95] [a101] ((price b99 + price a101) / 2) = Inr wp"
      and sp: "calc_spread_score [b99, b95] [a101] = Inr (sp, bps)"
    by blast
  obtain r where r: "snd (analyze (new_engine ''WIF-USDT'') [b99, b95] [a101] None) = Inr r"
    and z: "support_zones r = fst (find_liquidity_zones [b99, b95] [a101] ((price b99 + price a101) / 2))"
      "resistance_zones r = snd (find_liquidity_zones [b99, b95] [a101] ((price b99 + price a101) / 2))"
    using analyze_zones [OF wp sp, of "new_engine ''WIF-USDT''" None] by blast
  have fs: "first_major (support_zones r) = Some zone5"
    and fr: "first_major (resistance_zones r) = Some zone_above"
    using z m by (simp_all add: zones_long first_major_def zone5_def zone_above_def)
  have "distance_pct zone5 < 10" by (simp add: zone5_def)
  then obtain t where "reversal_suggestion r = Some t" "action t = ''LONG''"
    "entry_price t = zone_price zone5" "stop_price t = zone_price zone5 * (97 / 100)"
    "target_price t = zone_price zone_above"
    "sug_confidence t = min 70 (total_volume_usd zone5 / 10000)"
    using reversal_rule [OF r] fs fr by fastforce
  then show ?thesis using r fs by (auto simp: zone5_def zone_above_def)
qed

text \<open>
  C6 as stated fails: in the example book a major support zone lies 5% below mid, but the
  largest major support zone lies 15% below, so \<open>analyze\<close> proposes no LONG (it proposes
  a SHORT at the resistance); with no resistance zone there is no reversal at all.
\<close>

theorem reversal_first_major_only_counterexample:
  "(\<exists>r. snd (analyze (new_engine ''WIF-USDT'') [b99, b95, b85] [a101] None) = Inr r \<and>
        zone5 \<in> set (support_zones r) \<and> is_major zone5 \<and> distance_pct zone5 < 10 \<and>
        (\<exists>t. reversal_suggestion r = Some t \<and> action t = ''SHORT''))
   \<and> generate_suggestions (new_result\<lparr>mid_price := 100, support_zones := [zone15, zone5]\<rparr>)
       = Inr (None, None)"
proof
  have m: "(price b99 + price a101) / 2 = 100" by (simp add: b99_def a101_def)
  have "well_formed_book [b99, b95, b85] [a101]"
    by (simp add: well_formed_book_def b99_def b95_def b85_def a101_def)
  from well_formed_steps [OF this]
  obtain wp sp bps
    where wp: "calc_weighted_pressure [b99, b95, b85] [a101] ((price b99 + price a101) / 2) = Inr wp"
      and sp: "calc_spread_score [b99, b95, b85] [a101] = Inr (sp, bps)"
    by blast
  obtain r where r: "snd (analyze (new_engine ''WIF-USDT'') [b99, b95, b85] [a101] None) = Inr r"
    and z: "mid_price r = (price b99 + price a101) / 2"
      "support_zones r = fst (find_liquidity_zones [b99, b95, b85] [a101] ((price b99 + price a101) / 2))"
      "resistance_zones r = snd (find_liquidity_zones [b99, b95, b85] [a101] ((price b99 + price a101) / 2))"
      "reversal_suggestion r = reversal_part r"
    using analyze_zones [OF wp sp, of "new_engine ''WIF-USDT''" None] by blast
  have sup: "support_zones r = [zone15, zone5,
      \<lparr>zone_price = 99, total_volume_usd = 99, zone_side = ''bid'', distance_pct = 1,
        order_count = 1, is_major = False\<rparr>]"
    and res: "resistance_zones r = [zone_above]" and mid: "mid_price r = 100"
    using z m by (simp_all add: zones_ex zone15_def zone5_def zone_above_def)
  have "\<exists>t. reversal_part r = Some t \<and> action t = ''SHORT''"
    by (simp add: reversal_part_def sup res mid zone15_def zone5_def zone_above_def)
  then show "\<exists>r. snd (analyze (new_engine ''WIF-USDT'') [b99, b95, b85] [a101] None) = Inr r \<and>
        zone5 \<in> set (support_zones r) \<and> is_major zone5 \<and> distance_pct zone5 < 10 \<and>
        (\<exists>t. reversal_suggestion r = Some t \<and> action t = ''SHORT'')"
    using r z(4) sup by (auto simp: zone5_def)
next
  show "generate_suggestions (new_result\<lparr>mid_price := 100, support_zones := [zone15, zone5]\<rparr>)
       = Inr (None, None)"
    by (simp add: generate_suggestions_def scalp_part_def reversal_part_def new_result_def
        zone15_def zone5_def)
qed

subsection \<open>What the early return leaves untouched\<close>

lemma analyze_state:
  assumes wp: "calc_weighted_pressure (b0 # bs) (a0 # as) ((price b0 + price a0) / 2) = Inr wp"
    and sp: "calc_spread_score (b0 # bs) (a0 # as) = Inr (sp, bps)"
  shows "imbalance_history (fst (analyze st (b0 # bs) (a0 # as) window)) =
           deque_append 60 (imbalance_history st)
             (snd (snd (snd (calc_imbalance (b0 # bs) (a0 # as)))))"
proof -
  obtain imb bv av ratio where ci: "calc_imbalance (b0 # bs) (a0 # as) = (imb, bv, av, ratio)"
    by (cases "calc_imbalance (b0 # bs) (a0 # as)") auto
  obtain wall lb la where cw: "calc_wall_score (b0 # bs) (a0 # as) bv av = (wall, lb, la)"
    by (cases "calc_wall_score (b0 # bs) (a0 # as) bv av") auto
  have fl: "imbalance_history st' = imbalance_history st"
    if "calc_flow_score ts st = (st', x)" for ts st' x
    using that by (auto simp: calc_flow_score_def Let_def split: if_splits)
  show ?thesis
    unfolding analyze_def
    using wp sp ci cw
    by (auto simp: Let_def dest: fl split: prod.splits option.splits sum.splits)
qed

text \<open>
  C9: when the bid list or the ask list is empty, \<open>analyze\<close> leaves the engine state as it
  was (no history entry, the same cumulative delta); and on every call whose trade window
  is absent or empty the cumulative delta keeps its value.
\<close>

theorem analyze_frame:
  "((bids = [] \<or> asks = []) \<longrightarrow> fst (analyze st bids asks window) = st) \<and>
   ((window = None \<or> window = Some []) \<longrightarrow>
      cumulative_delta (fst (analyze st bids asks window)) = cumulative_delta st)"
proof (intro conjI impI)
  assume "bids = [] \<or> asks = []"
  then show "fst (analyze st bids asks window) = st"
    by (auto simp: analyze_def split: list.splits)
next
  assume "window = None \<or> window = Some []"
  then show "cumulative_delta (fst (analyze st bids asks window)) = cumulative_delta st"
    by (auto simp: analyze_def Let_def split: list.splits sum.splits prod.splits)
qed

theorem analyze_frame_witness:
  "fst (analyze \<lparr>engine_symbol = ''WIF-USDT'', imbalance_history = [12 / 10], cumulative_delta = 5\<rparr>
          [] [a101] (Some [(1000, ''buy'')]))
     = \<lparr>engine_symbol = ''WIF-USDT'', imbalance_history = [12 / 10], cumulative_delta = 5\<rparr> \<and>
   cumulative_delta
     (fst (analyze \<lparr>engine_symbol = ''WIF-USDT'', imbalance_history = [12 / 10], cumulative_delta = 5\<rparr>
             [b99] [a101] None)) = 5"
  using analyze_frame
      [of "[]" "[a101]"
          "\<lparr>engine_symbol = ''WIF-USDT'', imbalance_history = [12 / 10], cumulative_delta = 5\<rparr>"
          "Some [(1000, ''buy'')]"]
    analyze_frame
      [of "[b99]" "[a101]"
          "\<lparr>engine_symbol = ''WIF-USDT'', imbalance_history = [12 / 10], cumulative_delta = 5\<rparr>"
          None]
  by simp

section \<open>Properties of the adapter book and the analyzer\<close>

subsection \<open>A book without ask value\<close>

lemma detect_walls_log:
  "\<exists>ws. emitted (detect_walls now name st a) = emitted a @ ws \<and>
        list_all (\<lambda>w. alert_type (snd w) = ''wall_detected'') ws"
  by (auto simp: detect_walls_def emit_alert_def Let_def split: option.splits)

lemma detect_imbalance_neutral:
  assumes "stats_imbalance_ratio st = 1"
  shows "detect_imbalance now name st a = (a, None)"
  using assms by (simp add: detect_imbalance_def imbalance_ratio_threshold_def)

lemma stats_levels_ratio:
  "stats_imbalance_ratio (stats_levels now sp ob st) = stats_imbalance_ratio st"
  by (simp add: stats_levels_def Let_def split: list.splits)

text \<open>
  C10: when the top-20 ask value of a book sums to zero, the adapter's \<open>imbalance_ratio\<close>
  is exactly 1 (the engine's \<open>calc_imbalance\<close> gives 2 on the same book); for a tracked
  symbol \<open>handle_orderbook\<close> stores statistics with that ratio, which report NEUTRAL
  pressure; and the handler emits no imbalance alert: whatever it adds to the log is a
  wall alert.
\<close>

theorem zero_asks_neutral:
  assumes "ask_total_usd ob = 0"
  shows "imbalance_ratio ob = 1 \<and>
         snd (snd (snd (calc_imbalance (book_bids ob) (book_asks ob)))) = 2 \<and>
         (stats a (book_symbol ob) \<noteq> None \<longrightarrow>
            (\<exists>st. stats (fst (handle_orderbook now ob a)) (book_symbol ob) = Some st \<and>
                  stats_imbalance_ratio st = 1 \<and> pressure st = ''NEUTRAL'')) \<and>
         (\<exists>ws. emitted (fst (handle_orderbook now ob a)) = emitted a @ ws \<and>
               list_all (\<lambda>w. alert_type (snd w) = ''wall_detected'') ws)"
proof -
  have r: "imbalance_ratio ob = 1" using assms by (simp add: imbalance_ratio_def)
  have e: "snd (snd (snd (calc_imbalance (book_bids ob) (book_asks ob)))) = 2"
    using assms by (simp add: calc_imbalance_def ask_total_usd_def Let_def)
  have tot: "stats_imbalance_ratio (stats_totals ob st) = 1" for st
    using r by (simp add: stats_totals_def)
  have h: "(stats a (book_symbol ob) \<noteq> None \<longrightarrow>
            (\<exists>st. stats (fst (handle_orderbook now ob a)) (book_symbol ob) = Some st \<and>
                  stats_imbalance_ratio st = 1 \<and> pressure st = ''NEUTRAL'')) \<and>
         (\<exists>ws. emitted (fst (handle_orderbook now ob a)) = emitted a @ ws \<and>
               list_all (\<lambda>w. alert_type (snd w) = ''wall_detected'') ws)"
  proof (cases "stats a (book_symbol ob)")
    case None
    then show ?thesis by (simp add: handle_orderbook_def)
  next
    case (Some st)
    show ?thesis
    proof (cases "spread_pct ob")
      case (Inl err)
      then show ?thesis using Some tot [of st]
        by (simp add: handle_orderbook_def pressure_def)
    next
      case (Inr sp)
      let ?st = "stats_levels now sp ob (stats_totals ob st)"
      let ?a1 = "a\<lparr>stats := (stats a)(book_symbol ob \<mapsto> ?st)\<rparr>"
      have one: "stats_imbalance_ratio ?st = 1" using tot [of st] by (simp add: stats_levels_ratio)
      have eq: "fst (handle_orderbook now ob a) = detect_walls now (book_symbol ob) ?st ?a1"
        using Some Inr one by (simp add: handle_orderbook_def Let_def detect_imbalance_neutral)
      have st_keep: "stats (detect_walls now (book_symbol ob) ?st ?a1) = stats ?a1"
        by (simp add: detect_walls_def emit_alert_def Let_def split: option.splits)
      obtain ws where ws: "emitted (detect_walls now (book_symbol ob) ?st ?a1) = emitted ?a1 @ ws"
        "list_all (\<lambda>w. alert_type (snd w) = ''wall_detected'') ws"
        using detect_walls_log [of now "book_symbol ob" ?st ?a1] by blast
      show ?thesis using eq st_keep ws one by (simp add: pressure_def)
    qed
  qed
  show ?thesis using r e h by simp
qed

text \<open>The theorem at a book with two bids and an empty ask side, on a tracked symbol.\<close>

theorem zero_asks_neutral_witness:
  "imbalance_ratio bids_only_book = 1 \<and>
   snd (snd (snd (calc_imbalance (book_bids bids_only_book) (book_asks bids_only_book)))) = 2 \<and>
   (\<exists>st. stats (fst (handle_orderbook 10 bids_only_book (new_analyzer [''WIF-USDT''])))
              (book_symbol bids_only_book) = Some st \<and>
         stats_imbalance_ratio st = 1 \<and> pressure st = ''NEUTRAL'') \<and>
   (\<exists>ws. emitted (fst (handle_orderbook 10 bids_only_book (new_analyzer [''WIF-USDT''])))
            = emitted (new_analyzer [''WIF-USDT'']) @ ws \<and>
         list_all (\<lambda>w. alert_type (snd w) = ''wall_detected'') ws)"
proof -
  have z: "ask_total_usd bids_only_book = 0"
    by (simp add: ask_total_usd_def bids_only_book_def)
  have t: "stats (new_analyzer [''WIF-USDT'']) (book_symbol bids_only_book) \<noteq> None"
    by (simp add: new_analyzer_def bids_only_book_def)
  show ?thesis
    using zero_asks_neutral [OF z, of "new_analyzer [''WIF-USDT'']" 10] t by simp
qed

text \<open>
  A book without bid value, by contrast, stores the ratio 0, and the imbalance step
  raises while it builds the sell alert: no imbalance alert is emitted.
\<close>

lemma zero_bids_raises:
  "handle_orderbook 10
     \<lparr>book_symbol = ''WIF-USDT'', book_bids = [], book_asks = [a101], book_timestamp = 0\<rparr>
     (new_analyzer [''WIF-USDT''])
   = ((new_analyzer [''WIF-USDT''])
        \<lparr>stats := (stats (new_analyzer [''WIF-USDT'']))
           (''WIF-USDT'' \<mapsto> (new_stats ''WIF-USDT'')
              \<lparr>ask_volume_usd := 101, stats_imbalance_ratio := 0, last_update := 10,
               largest_ask := Some a101\<rparr>)\<rparr>,
      Some ZeroDivisionError)"
  by (simp add: handle_orderbook_def spread_pct_def stats_totals_def stats_levels_def
      bid_total_usd_def ask_total_usd_def imbalance_ratio_def detect_walls_def
      detect_imbalance_def imbalance_ratio_threshold_def whale_order_usd_def py_max_def
      new_analyzer_def new_stats_def value_usd_def a101_def Let_def)

subsection \<open>Alert dedup\<close>


















text \<open>
  The comparison in \<open>emit_alert\<close> reads the last alert's timestamp field. For a trade
  alert that is the exchange's time: two whale buys handled at 10 and 11 seconds whose
  exchange timestamps are 0 and 1 are both emitted.
\<close>

lemma stale_timestamp_run:
  "map fst (emitted (analyzer_run
       [(10, TradeEvent (whale_trade_at ''WIF-USDT'' 0)),
        (11, TradeEvent (whale_trade_at ''WIF-USDT'' 1))]
       (new_analyzer [''WIF-USDT'', ''DOGE-USDT'']))) = [10, 11]"
  by (simp add: analyzer_run_def analyzer_step_def handle_trade_def update_volume_stats_def
      emit_alert_def new_analyzer_def whale_trade_at_def trade_value_usd_def whale_order_usd_def
      large_order_usd_def same_triple_def deque_append_def new_stats_def Let_def)

section \<open>Properties of the watcher and the registry\<close>

subsection \<open>The retained trades\<close>

lemma start_ready: "watcher_ready (start (new_watcher ex name))"
  by (simp add: start_def new_watcher_def watcher_ready_def Let_def)

lemma on_trade_ready:
  assumes "watcher_ready w"
  shows "watcher_ready (on_trade now t w)"
  using assms by (simp add: on_trade_def watcher_ready_def Let_def)

lemma trim_trades_length: "length (trim_trades now rt) \<le> length rt"
  by (simp add: trim_trades_def Let_def)

lemma trim_trades_recent: "list_all (\<lambda>(v, s, t). now - 60 < t) (trim_trades now rt)"
  by (auto simp: trim_trades_def Let_def list_all_iff)

lemma on_orderbook_trades:
  assumes "watcher_ready w"
  shows "recent_trades (fst (on_orderbook now ob w)) =
           (case spread_pct ob of Inl e \<Rightarrow> recent_trades w
            | Inr sp \<Rightarrow> trim_trades now (recent_trades w))"
  using assms
  by (auto simp: on_orderbook_def watcher_ready_def Let_def
      split: option.splits sum.splits prod.splits)

lemma on_orderbook_ready:
  assumes "watcher_ready w"
  shows "watcher_ready (fst (on_orderbook now ob w))"
proof -
  have len: "length (recent_trades (fst (on_orderbook now ob w))) \<le> 100"
    using assms trim_trades_length [of now "recent_trades w"]
    by (simp add: on_orderbook_trades watcher_ready_def split: sum.splits)
  have rest: "watcher_stats (fst (on_orderbook now ob w)) \<noteq> None
              \<and> signal_engine (fst (on_orderbook now ob w)) \<noteq> None"
    using assms
    by (auto simp: on_orderbook_def watcher_ready_def Let_def
        split: option.splits sum.splits prod.splits)
  show ?thesis using len rest by (simp add: watcher_ready_def)
qed

lemma watcher_step_ready:
  assumes "watcher_ready w"
  shows "watcher_ready (watcher_step w ev)"
  using assms by (simp add: watcher_step_def on_trade_ready on_orderbook_ready split: event.splits)

lemma watcher_run_ready:
  assumes "watcher_ready w"
  shows "watcher_ready (watcher_run evs w)"
  using assms unfolding watcher_run_def
  by (induction evs arbitrary: w) (simp_all add: watcher_step_ready)

lemma watcher_run_snoc: "watcher_run (evs @ [ev]) w = watcher_step (watcher_run evs w) ev"
  by (simp add: watcher_run_def)

lemma sorted_snoc_bound:
  fixes now :: real
  assumes "sorted (map fst evs @ [now])" "e \<in> set evs"
  shows "fst e \<le> now"
  using assms by (auto simp: sorted_append)

text \<open>
  C7 (as amended): for every sequence of trade and book events processed by a started
  watcher, \<open>recent_trades\<close> never holds more than 100 entries; and after a book event whose
  statistics are computed without an exception, every retained trade was received less
  than 60 seconds before that event's clock reading, hence, when the clock readings do not
  decrease, less than 60 seconds before every event processed so far, the most recent
  trade included.
\<close>

theorem recent_trades_bounds:
  "length (recent_trades (watcher_run evs (start (new_watcher ex name)))) \<le> 100 \<and>
   (spread_pct ob = Inr sp \<longrightarrow>
      list_all (\<lambda>(v, s, t). now - 60 < t)
        (recent_trades (watcher_run (evs @ [(now, BookEvent ob)]) (start (new_watcher ex name))))) \<and>
   (spread_pct ob = Inr sp \<and> sorted (map fst evs @ [now]) \<longrightarrow>
      list_all (\<lambda>(v, s, t). \<forall>e \<in> set evs. fst e - 60 < t)
        (recent_trades (watcher_run (evs @ [(now, BookEvent ob)]) (start (new_watcher ex name)))))"
proof -
  let ?w = "watcher_run evs (start (new_watcher ex name))"
  let ?w' = "watcher_run (evs @ [(now, BookEvent ob)]) (start (new_watcher ex name))"
  have rdy: "watcher_ready ?w" using start_ready by (rule watcher_run_ready)
  have len: "length (recent_trades ?w) \<le> 100" using rdy by (simp add: watcher_ready_def)
  have trimmed: "recent_trades ?w' = trim_trades now (recent_trades ?w)"
    if "spread_pct ob = Inr sp"
    using rdy that by (simp add: watcher_run_snoc watcher_step_def on_orderbook_trades)
  have recent: "list_all (\<lambda>(v, s, t). now - 60 < t) (recent_trades ?w')"
    if "spread_pct ob = Inr sp"
    using trimmed [OF that] trim_trades_recent [of now "recent_trades ?w"] by simp
  have earlier: "list_all (\<lambda>(v, s, t). \<forall>e \<in> set evs. fst e - 60 < t) (recent_trades ?w')"
    if sp: "spread_pct ob = Inr sp" and so: "sorted (map fst evs @ [now])"
  proof -
    have "\<forall>e \<in> set evs. fst e \<le> now" using so sorted_snoc_bound by blast
    then show ?thesis using recent [OF sp] by (fastforce simp: list_all_iff)
  qed
  show ?thesis using len recent earlier by blast
qed

lemma two_trades_run:
  "recent_trades (watcher_run [(0, TradeEvent small_trade), (100, TradeEvent small_trade)]
                    (start (new_watcher ''bingx'' ''WIF-USDT'')))
     = [(20, ''buy'', 0), (20, ''buy'', 100)]"
  by (simp add: watcher_run_def watcher_step_def on_trade_def start_def new_watcher_def
      small_trade_def trade_value_usd_def Let_def)

text \<open>
  The theorem at two trades, 100 seconds apart, followed by a book at 130 seconds.
\<close>

theorem recent_trades_bounds_witness:
  "length (recent_trades (watcher_run [(0, TradeEvent small_trade), (100, TradeEvent small_trade)]
                            (start (new_watcher ''bingx'' ''WIF-USDT'')))) \<le> 100 \<and>
   list_all (\<lambda>(v, s, t). 130 - 60 < t)
     (recent_trades (watcher_run ([(0, TradeEvent small_trade), (100, TradeEvent small_trade)]
                                   @ [(130, BookEvent bids_only_book)])
                       (start (new_watcher ''bingx'' ''WIF-USDT'')))) \<and>
   list_all (\<lambda>(v, s, t). 100 - 60 < t)
     (recent_trades (watcher_run ([(0, TradeEvent small_trade), (100, TradeEvent small_trade)]
                                   @ [(130, BookEvent bids_only_book)])
                       (start (new_watcher ''bingx'' ''WIF-USDT''))))"
  using recent_trades_bounds
    [of "[(0, TradeEvent small_trade), (100, TradeEvent small_trade)]" "''bingx''" "''WIF-USDT''"
        bids_only_book 0 130]
  by (simp add: spread_pct_def bids_only_book_def list_all_iff split_beta)

text \<open>
  C7 as stated fails: a trade event trims by count only, so after two trades 100 seconds
  apart the older one is still retained.
\<close>

theorem stale_trade_counterexample:
  "recent_trades (watcher_run [(0, TradeEvent small_trade), (100, TradeEvent small_trade)]
                    (start (new_watcher ''bingx'' ''WIF-USDT'')))
     = [(20, ''buy'', 0), (20, ''buy'', 100)]
   \<and> \<not> list_all (\<lambda>(v, s, t). 100 - 60 < t)
         (recent_trades (watcher_run [(0, TradeEvent small_trade), (100, TradeEvent small_trade)]
                    (start (new_watcher ''bingx'' ''WIF-USDT''))))"
  by (simp add: two_trades_run)

subsection \<open>A lost connection\<close>

lemma on_orderbook_history:
  assumes st: "watcher_stats w = Some s" and en: "signal_engine w = Some eng"
    and sp: "spread_pct ob = Inr x"
    and bk: "book_bids ob = b0 # bs" "book_asks ob = a0 # as"
    and wf: "well_formed_book (b0 # bs) (a0 # as)"
  shows "\<exists>eng'. signal_engine (fst (on_orderbook now ob w)) = Some eng' \<and>
           imbalance_history eng' =
             deque_append 60 (imbalance_history eng)
               (snd (snd (snd (calc_imbalance (b0 # bs) (a0 # as)))))"
proof -
  obtain wp sc bps
    where wp: "calc_weighted_pressure (b0 # bs) (a0 # as) ((price b0 + price a0) / 2) = Inr wp"
      and sc: "calc_spread_score (b0 # bs) (a0 # as) = Inr (sc, bps)"
    using well_formed_steps [OF wf] by blast
  have h: "imbalance_history e' =
           deque_append 60 (imbalance_history eng)
             (snd (snd (snd (calc_imbalance (b0 # bs) (a0 # as)))))"
    if "analyze eng (b0 # bs) (a0 # as) td = (e', res)" for td e' res
    using analyze_state [OF wp sc, of eng td] that by simp
  show ?thesis
    using st en sp bk
    by (auto simp: on_orderbook_def Let_def dest: h split: prod.splits sum.splits)
qed

lemma on_orderbook_lifecycle:
  "running (fst (on_orderbook now ob w)) = running w \<and>
   connections_opened (fst (on_orderbook now ob w)) = connections_opened w"
  by (auto simp: on_orderbook_def Let_def split: option.splits sum.splits prod.splits)

lemma watcher_step_lifecycle:
  "running (watcher_step w ev) = running w \<and>
   connections_opened (watcher_step w ev) = connections_opened w"
  by (simp add: watcher_step_def on_trade_def on_orderbook_lifecycle Let_def split: event.splits)

lemma watcher_run_lifecycle:
  "running (watcher_run evs w) = running w \<and>
   connections_opened (watcher_run evs w) = connections_opened w"
  unfolding watcher_run_def
  by (induction evs arbitrary: w) (simp_all add: watcher_step_lifecycle)

text \<open>
  C8 (as amended): when the adapter connection is lost (or the client raises),
  \<open>run_client\<close> clears \<open>running\<close> and ends, having opened the one connection of its run: it
  neither sleeps nor reopens, and no event handler that runs afterwards restarts the
  watcher or opens a connection. The loss leaves the engine, with its imbalance history
  and cumulative delta, and the retained trades as they were; a later \<open>start\<close> installs
  a fresh engine, whose history is empty and whose delta is zero.
\<close>

theorem connection_lost_stops_watcher:
  "running (run_client outcome w) = False \<and>
   connections_opened (run_client outcome w) = connections_opened w + 1 \<and>
   signal_engine (run_client outcome w) = signal_engine w \<and>
   recent_trades (run_client outcome w) = recent_trades w \<and>
   running (watcher_run evs (run_client outcome w)) = False \<and>
   connections_opened (watcher_run evs (run_client outcome w)) = connections_opened w + 1 \<and>
   signal_engine (start (run_client outcome w)) = Some (new_engine (watcher_symbol w))"
proof -
  have base: "running (run_client outcome w) = False \<and>
      connections_opened (run_client outcome w) = connections_opened w + 1 \<and>
      signal_engine (run_client outcome w) = signal_engine w \<and>
      recent_trades (run_client outcome w) = recent_trades w \<and>
      watcher_symbol (run_client outcome w) = watcher_symbol w"
    by (cases outcome) (simp_all add: run_client_def Let_def)
  have later: "running (watcher_run evs (run_client outcome w)) = False \<and>
      connections_opened (watcher_run evs (run_client outcome w)) = connections_opened w + 1"
    using base watcher_run_lifecycle [of evs "run_client outcome w"] by simp
  have fresh: "signal_engine (start (run_client outcome w)) = Some (new_engine (watcher_symbol w))"
    using base by (simp add: start_def Let_def)
  show ?thesis using base later fresh by simp
qed

text \<open>
  C8 as stated fails: after one snapshot and a lost connection the watcher is stopped with
  a single connection opened, and restarting it discards the history.
\<close>

theorem no_reconnect_counterexample:
  "(\<exists>eng. signal_engine (fst (on_orderbook 1 two_sided_book (start (new_watcher ''bingx'' ''WIF-USDT''))))
            = Some eng \<and> length (imbalance_history eng) = 1) \<and>
   running (run_client ConnectionLost
              (fst (on_orderbook 1 two_sided_book (start (new_watcher ''bingx'' ''WIF-USDT''))))) = False \<and>
   connections_opened (run_client ConnectionLost
              (fst (on_orderbook 1 two_sided_book (start (new_watcher ''bingx'' ''WIF-USDT''))))) = 1 \<and>
   (\<exists>eng. signal_engine (start (run_client ConnectionLost
              (fst (on_orderbook 1 two_sided_book (start (new_watcher ''bingx'' ''WIF-USDT''))))))
            = Some eng \<and> imbalance_history eng = [] \<and> cumulative_delta eng = 0)"
proof -
  let ?w0 = "start (new_watcher ''bingx'' ''WIF-USDT'')"
  let ?w1 = "fst (on_orderbook 1 two_sided_book ?w0)"
  have st: "watcher_stats ?w0 = Some (new_stats ''WIF-USDT'')"
    and en: "signal_engine ?w0 = Some (new_engine ''WIF-USDT'')"
    by (simp_all add: start_def new_watcher_def Let_def)
  have sp: "spread_pct two_sided_book = Inr (200 / 99)"
    by (simp add: spread_pct_def two_sided_book_def b99_def a101_def)
  have bk: "book_bids two_sided_book = b99 # []" "book_asks two_sided_book = a101 # []"
    by (simp_all add: two_sided_book_def)
  have mid: "well_formed_book [b99] [a101]"
    by (simp add: well_formed_book_def b99_def a101_def)
  obtain eng where e: "signal_engine ?w1 = Some eng"
    "imbalance_history eng = deque_append 60 (imbalance_history (new_engine ''WIF-USDT''))
        (snd (snd (snd (calc_imbalance [b99] [a101]))))"
    using on_orderbook_history [OF st en sp bk mid, of 1] by blast
  have one: "length (imbalance_history eng) = 1"
    using e(2) by (simp add: deque_append_def new_engine_def Let_def)
  have co: "connections_opened ?w1 = 0"
    using st en sp
    by (auto simp: on_orderbook_def Let_def start_def new_watcher_def
        split: prod.splits sum.splits)
  have sym: "watcher_symbol ?w1 = ''WIF-USDT''"
    using st en sp
    by (auto simp: on_orderbook_def Let_def start_def new_watcher_def
        split: prod.splits sum.splits)
  show ?thesis using e(1) one co sym
    by (simp add: run_client_def start_def new_engine_def Let_def)
qed

subsection \<open>Watch requests\<close>

lemma start_watching_rejects_unknown:
  assumes "get_contract sv ex name = None" "watch_key ex name \<notin> dom (active_watchers sv)"
  shows "start_watching ex name sv = (sv, Error_reply ''Contract not found'')"
  using assms by (simp add: start_watching_def Let_def)

lemma start_watching_idempotent:
  assumes "watch_key ex name \<in> dom (active_watchers sv)"
  shows "start_watching ex name sv = (sv, Already_watching (watch_key ex name))"
  using assms by (simp add: start_watching_def Let_def)

lemma ws_watch_idempotent:
  assumes "watch_key ex name \<in> dom (active_watchers sv)" "ex \<noteq> []" "name \<noteq> []"
  shows "ws_watch (Some ex) (Some name) sv = (sv, Some (Ws_watching (watch_key ex name)))"
  using assms by (simp add: ws_watch_def Let_def)

text \<open>
  C5, at the failing input: with an empty catalog and no watcher, the REST endpoint rejects
  the unknown instrument and leaves the registry as it was, while the WebSocket
  \<^verbatim>\<open>watch\<close> action on the same instrument registers a started watcher and replies
  \<^verbatim>\<open>watching\<close>.
\<close>

theorem ws_watch_skips_catalog:
  "get_contract empty_server ''bingx'' ''NOPE-USDT'' = None \<and>
   start_watching ''bingx'' ''NOPE-USDT'' empty_server
     = (empty_server, Error_reply ''Contract not found'') \<and>
   snd (ws_watch (Some ''bingx'') (Some ''NOPE-USDT'') empty_server)
     = Some (Ws_watching ''bingx:NOPE-USDT'') \<and>
   active_watchers (fst (ws_watch (Some ''bingx'') (Some ''NOPE-USDT'') empty_server))
       ''bingx:NOPE-USDT''
     = Some (start (new_watcher ''bingx'' ''NOPE-USDT''))"
  by (simp add: empty_server_def get_contract_def start_watching_def ws_watch_def watch_key_def
      Let_def)

end
